theory Spec2Isabelle
  imports Complex_Main "HOL-Library.Log_Nat"
begin

section \<open>JavaScript values\<close>

text \<open>
  The application is a single JavaScript file working on an IndexedDB database, an
  in-memory cart and a few form fields of the page. A JavaScript number is an IEEE
  754 double. A price or an amount is the \<open>rat\<close> that its (finite) double denotes,
  and every addition, subtraction, multiplication and division on amounts is the
  exact operation followed by \<open>binary64\<close>, the rounding to the nearest double. A
  stock or a quantity (always the result of \<open>parseInt\<close> or of integer arithmetic on
  such results) is an \<open>int\<close>: integer arithmetic on doubles is exact below \<open>2^53\<close>.
  The result of \<open>parseFloat\<close> or \<open>parseInt\<close> on a form field is an option, \<open>None\<close>
  standing for \<open>NaN\<close>.

  Every event handler is taken to run to completion, its promise continuations
  included, before the next event is handled.
\<close>

text \<open>
  The integer nearest to \<open>x\<close>, the even one of the two on a tie.
\<close>

definition round_even :: "rat \<Rightarrow> int" where
  "round_even x =
     (let f = \<lfloor>x\<rfloor>; r = x - of_int f
      in if r < 1 / 2 then f else if 1 / 2 < r then f + 1 else if even f then f else f + 1)"

text \<open>The binary exponent of \<open>x \<noteq> 0\<close>: the \<open>e\<close> with \<open>2^e \<le> |x| < 2^(e+1)\<close>.\<close>

definition exponent_of :: "rat \<Rightarrow> int" where
  "exponent_of x =
     (if 1 \<le> \<bar>x\<bar> then bitlen \<lfloor>\<bar>x\<bar>\<rfloor> - 1 else - bitlen (\<lceil>1 / \<bar>x\<bar>\<rceil> - 1))"

text \<open>
  The double nearest to \<open>x\<close> (round to nearest, ties to even): a significand of 53
  bits at the exponent of \<open>x\<close>, and multiples of \<open>2^-1074\<close> below \<open>2^-1022\<close>. A
  result of magnitude \<open>2^1024\<close> or more, which JavaScript turns into \<open>Infinity\<close>, is
  not represented: the statements below that depend on the arithmetic keep the
  amounts under \<open>2^53\<close>.
\<close>

definition binary64 :: "rat \<Rightarrow> rat" where
  "binary64 x =
     (if x = 0 then 0
      else let u = 2 powi (max (exponent_of x) (- 1022) - 52)
           in of_int (round_even (x / u)) * u)"

text \<open>
  A key of an IndexedDB index. Keys of different types are never equal: the number
  \<open>1\<close> and the string \<open>"1"\<close> are two keys. A property holding \<open>null\<close> is no key, and
  the record is then absent from the index (\<open>None\<close> below).
\<close>

datatype idbkey = NumKey int | StrKey string

text \<open>
  A date-valued property: a \<open>Date\<close> object (milliseconds since the epoch), or the
  string that \<open>JSON.stringify\<close> writes for that \<open>Date\<close> (its \<open>toISOString()\<close>),
  represented by the instant it spells.
\<close>

datatype jsdate = DateObj int | IsoString int

text \<open>A number-valued property that may hold \<open>NaN\<close>, or \<open>null\<close> after a JSON round trip.\<close>

datatype jsnum = Num rat | NaN | Null

datatype idb_error = ConstraintError

section \<open>Object stores\<close>

text \<open>
  An object store with \<open>keyPath: 'id'\<close> and \<open>autoIncrement: true\<close>: its records in key
  order and the current number of its key generator. The schema of a store is passed
  to the operations: \<open>key\<close> reads the in-line key, \<open>set_key\<close> writes it, and \<open>uniq\<close>
  reads the property of the store's unique index (\<open>code\<close> for products and suppliers,
  \<open>invoice\<close> for transactions).
\<close>

record 'a object_store =
  rows :: "'a list"
  keygen :: int

definition empty_store :: "'a object_store" where
  "empty_store = \<lparr>rows = [], keygen = 1\<rparr>"

fun insert_by_key :: "('a \<Rightarrow> int) \<Rightarrow> 'a \<Rightarrow> 'a list \<Rightarrow> 'a list" where
  "insert_by_key key r [] = [r]"
| "insert_by_key key r (x # xs) =
     (if key r < key x then r # x # xs else x # insert_by_key key r xs)"

text \<open>\<open>store.get(k)\<close>: the record with key \<open>k\<close>, or \<open>undefined\<close>.\<close>

definition store_get :: "('a \<Rightarrow> int) \<Rightarrow> int \<Rightarrow> 'a object_store \<Rightarrow> 'a option" where
  "store_get key k st = find (\<lambda>x. key x = k) (rows st)"

text \<open>
  \<open>store.add(record)\<close> for a record without an \<open>id\<close>: the key generator supplies the
  key (it is beyond every key of the store, so that key is free); a clash on the
  unique index fails with \<open>ConstraintError\<close> and stores nothing.
\<close>

definition store_add ::
  "('a \<Rightarrow> int) \<Rightarrow> (int \<Rightarrow> 'a \<Rightarrow> 'a) \<Rightarrow> ('a \<Rightarrow> string) \<Rightarrow> 'a \<Rightarrow> 'a object_store
     \<Rightarrow> idb_error + 'a object_store" where
  "store_add key set_key uniq r st =
     (if list_ex (\<lambda>x. uniq x = uniq r) (rows st) then Inl ConstraintError
      else Inr \<lparr>rows = insert_by_key key (set_key (keygen st) r) (rows st),
                keygen = keygen st + 1\<rparr>)"

text \<open>
  \<open>store.add(record)\<close> for a record that carries its \<open>id\<close> (a record read back from a
  backup file): the key must be free as well, and the key generator moves past it.
\<close>

definition store_add_keyed ::
  "('a \<Rightarrow> int) \<Rightarrow> ('a \<Rightarrow> string) \<Rightarrow> 'a \<Rightarrow> 'a object_store \<Rightarrow> idb_error + 'a object_store" where
  "store_add_keyed key uniq r st =
     (if list_ex (\<lambda>x. key x = key r) (rows st) \<or> list_ex (\<lambda>x. uniq x = uniq r) (rows st)
      then Inl ConstraintError
      else Inr \<lparr>rows = insert_by_key key r (rows st),
                keygen = max (keygen st) (key r + 1)\<rparr>)"

text \<open>
  \<open>store.put(record)\<close>: replaces the record with the same key, or inserts it; fails
  with \<open>ConstraintError\<close> when another record holds the same unique-index value.
\<close>

definition store_put ::
  "('a \<Rightarrow> int) \<Rightarrow> ('a \<Rightarrow> string) \<Rightarrow> 'a \<Rightarrow> 'a object_store \<Rightarrow> idb_error + 'a object_store" where
  "store_put key uniq r st =
     (if list_ex (\<lambda>x. key x \<noteq> key r \<and> uniq x = uniq r) (rows st) then Inl ConstraintError
      else Inr \<lparr>rows = (if list_ex (\<lambda>x. key x = key r) (rows st)
                         then map (\<lambda>x. if key x = key r then r else x) (rows st)
                         else insert_by_key key r (rows st)),
                keygen = max (keygen st) (key r + 1)\<rparr>)"

text \<open>\<open>store.delete(k)\<close> succeeds whether or not a record has the key.\<close>

definition store_delete :: "('a \<Rightarrow> int) \<Rightarrow> int \<Rightarrow> 'a object_store \<Rightarrow> 'a object_store" where
  "store_delete key k st = st\<lparr>rows := filter (\<lambda>x. key x \<noteq> k) (rows st)\<rparr>"

text \<open>\<open>store.clear()\<close> removes the records and leaves the key generator as it is.\<close>

definition store_clear :: "'a object_store \<Rightarrow> 'a object_store" where
  "store_clear st = st\<lparr>rows := []\<rparr>"

section \<open>Records of the five stores\<close>

record product =
  p_id :: int
  p_code :: string
  p_name :: string
  p_category :: string
  p_price :: rat
  p_cost :: rat
  p_stock :: int
  p_minStock :: int
  p_supplierId :: "idbkey option"
  p_updatedAt :: jsdate
  p_createdAt :: "jsdate option"

record supplier =
  s_id :: int
  s_code :: string
  s_name :: string
  s_contact :: string
  s_address :: string
  s_email :: "string option"
  s_phone :: "string option"
  s_updatedAt :: jsdate
  s_createdAt :: "jsdate option"

record transaction_item =
  ti_productId :: int
  ti_code :: string
  ti_name :: string
  ti_price :: rat
  ti_quantity :: int

record transaction =
  t_id :: int
  t_invoice :: string
  t_date :: jsdate
  t_items :: "transaction_item list"
  t_subtotal :: rat
  t_discount :: jsnum
  t_tax :: jsnum
  t_total :: rat
  t_paymentMethod :: string
  t_amountReceived :: rat
  t_change :: rat

record notification =
  n_id :: int
  n_message :: string
  n_type :: string
  n_date :: jsdate
  n_read :: bool

text \<open>
  The \<open>currency\<close> settings record. \<open>cur_decimal\<close> is the empty string when the property
  is falsy (the default record holds the number \<open>0\<close>).
\<close>

record currency =
  cur_symbol :: string
  cur_decimal :: string
  cur_separator :: string
  cur_precision :: nat

text \<open>
  The settings store has \<open>keyPath: 'id'\<close> and four fixed ids. Its records are kept
  in the order of their keys, strings compared character by character.
\<close>

datatype setting =
    StoreSetting string string "string option" "string option" "string option"
  | ReceiptSetting string string bool "string option"
  | TaxRateSetting rat
  | CurrencySetting currency

fun setting_id :: "setting \<Rightarrow> string" where
  "setting_id (StoreSetting _ _ _ _ _) = ''store''"
| "setting_id (ReceiptSetting _ _ _ _) = ''receipt''"
| "setting_id (TaxRateSetting _) = ''taxRate''"
| "setting_id (CurrencySetting _) = ''currency''"

fun string_less :: "string \<Rightarrow> string \<Rightarrow> bool" where
  "string_less [] [] = False"
| "string_less [] (y # ys) = True"
| "string_less (x # xs) [] = False"
| "string_less (x # xs) (y # ys) =
     ((of_char x :: nat) < of_char y \<or> (x = y \<and> string_less xs ys))"

fun insert_setting :: "setting \<Rightarrow> setting list \<Rightarrow> setting list" where
  "insert_setting r [] = [r]"
| "insert_setting r (x # xs) =
     (if string_less (setting_id r) (setting_id x) then r # x # xs
      else x # insert_setting r xs)"

record database =
  products :: "product object_store"
  transactions :: "transaction object_store"
  suppliers :: "supplier object_store"
  settings :: "setting list"
  notifications :: "notification object_store"

definition empty_database :: database where
  "empty_database = \<lparr>products = empty_store, transactions = empty_store,
     suppliers = empty_store, settings = [], notifications = empty_store\<rparr>"

section \<open>IndexedDB helper functions\<close>

text \<open>
  \<open>addRecord\<close>, \<open>getRecord\<close>, \<open>updateRecord\<close> and \<open>deleteRecord\<close> take the store name
  in the source; here there is one function for each store they are called on.
\<close>

definition addRecord_products :: "product \<Rightarrow> database \<Rightarrow> idb_error + database" where
  "addRecord_products r d =
     (case store_add p_id (\<lambda>k x. x\<lparr>p_id := k\<rparr>) p_code r (products d) of
        Inl e \<Rightarrow> Inl e
      | Inr st \<Rightarrow> Inr (d\<lparr>products := st\<rparr>))"

definition getRecord_products :: "int \<Rightarrow> database \<Rightarrow> product option" where
  "getRecord_products k d = store_get p_id k (products d)"

definition updateRecord_products :: "product \<Rightarrow> database \<Rightarrow> idb_error + database" where
  "updateRecord_products r d =
     (case store_put p_id p_code r (products d) of
        Inl e \<Rightarrow> Inl e
      | Inr st \<Rightarrow> Inr (d\<lparr>products := st\<rparr>))"

definition deleteRecord_products :: "int \<Rightarrow> database \<Rightarrow> database" where
  "deleteRecord_products k d = d\<lparr>products := store_delete p_id k (products d)\<rparr>"

definition addRecord_suppliers :: "supplier \<Rightarrow> database \<Rightarrow> idb_error + database" where
  "addRecord_suppliers r d =
     (case store_add s_id (\<lambda>k x. x\<lparr>s_id := k\<rparr>) s_code r (suppliers d) of
        Inl e \<Rightarrow> Inl e
      | Inr st \<Rightarrow> Inr (d\<lparr>suppliers := st\<rparr>))"

definition updateRecord_suppliers :: "supplier \<Rightarrow> database \<Rightarrow> idb_error + database" where
  "updateRecord_suppliers r d =
     (case store_put s_id s_code r (suppliers d) of
        Inl e \<Rightarrow> Inl e
      | Inr st \<Rightarrow> Inr (d\<lparr>suppliers := st\<rparr>))"

definition deleteRecord_suppliers :: "int \<Rightarrow> database \<Rightarrow> database" where
  "deleteRecord_suppliers k d = d\<lparr>suppliers := store_delete s_id k (suppliers d)\<rparr>"

definition addRecord_transactions :: "transaction \<Rightarrow> database \<Rightarrow> idb_error + database" where
  "addRecord_transactions r d =
     (case store_add t_id (\<lambda>k x. x\<lparr>t_id := k\<rparr>) t_invoice r (transactions d) of
        Inl e \<Rightarrow> Inl e
      | Inr st \<Rightarrow> Inr (d\<lparr>transactions := st\<rparr>))"

definition getRecord_settings :: "string \<Rightarrow> database \<Rightarrow> setting option" where
  "getRecord_settings k d = find (\<lambda>x. setting_id x = k) (settings d)"


section \<open>Settings provider and currency formatting\<close>




definition is_digit :: "char \<Rightarrow> bool" where
  "is_digit c = (48 \<le> (of_char c :: nat) \<and> (of_char c :: nat) \<le> 57)"

text \<open>A word character of a regular expression: \<open>[A-Za-z0-9_]\<close>.\<close>

definition is_word_char :: "char \<Rightarrow> bool" where
  "is_word_char c =
     (let n = (of_char c :: nat)
      in (48 \<le> n \<and> n \<le> 57) \<or> (65 \<le> n \<and> n \<le> 90) \<or> (97 \<le> n \<and> n \<le> 122) \<or> n = 95)"

definition digit_char :: "nat \<Rightarrow> char" where
  "digit_char d = ''0123456789'' ! (d mod 10)"

definition digit_value :: "char \<Rightarrow> nat" where
  "digit_value c = (of_char c :: nat) - 48"

fun digits_of :: "nat \<Rightarrow> string" where
  "digits_of n =
     (if n < 10 then [digit_char n] else digits_of (n div 10) @ [digit_char (n mod 10)])"

declare digits_of.simps [simp del]

text \<open>
  \<open>amount.toFixed(p)\<close>: a \<open>RangeError\<close> (\<open>None\<close>) when \<open>p\<close> is above 100; otherwise the
  sign, then the integer \<open>n\<close> nearest to \<open>|amount| * 10^p\<close> (the larger one on a tie)
  written in decimal, padded with zeros to \<open>p + 1\<close> digits, with a point before the
  last \<open>p\<close> digits. The argument is the exact value of the double. (From \<open>10^21\<close>
  on JavaScript writes the number with an exponent instead, which is not modelled;
  the statements below that depend on the digits keep the amount under \<open>2^53\<close>.)
\<close>

definition toFixed :: "rat \<Rightarrow> nat \<Rightarrow> string option" where
  "toFixed x p =
     (if 100 < p then None
      else let n = nat \<lfloor>\<bar>x\<bar> * 10 ^ p + 1 / 2\<rfloor>;
               m = digits_of n;
               m' = replicate (p + 1 - length m) (CHR ''0'') @ m;
               k = length m' - p
           in Some ((if x < 0 then ''-'' else [])
                    @ (if p = 0 then m else take k m' @ ''.'' @ drop k m')))"

text \<open>
  \<open>s.replace(/\B(?=(\d{3})+(?!\d))/g, sep)\<close>: \<open>sep\<close> is inserted at every position
  that is not a word boundary and is followed by a run of digits whose length is a
  positive multiple of three. The character after such a position is a digit, so the
  position is no word boundary exactly when a word character precedes it. (\<open>sep\<close> is
  taken literally: a separator without \<open>$\<close>.)
\<close>

fun group_thousands :: "string \<Rightarrow> char option \<Rightarrow> string \<Rightarrow> string" where
  "group_thousands sep prev [] = []"
| "group_thousands sep prev (c # cs) =
     (let run = length (takeWhile is_digit (c # cs))
      in (if (case prev of None \<Rightarrow> False | Some b \<Rightarrow> is_word_char b) \<and> 0 < run \<and> run mod 3 = 0
          then sep else [])
         @ c # group_thousands sep (Some c) cs)"

text \<open>\<open>s.split('.')\<close> and \<open>parts.join(sep)\<close>.\<close>

fun split_dot :: "string \<Rightarrow> string list" where
  "split_dot [] = [[]]"
| "split_dot (c # cs) =
     (if c = CHR ''.'' then [] # split_dot cs
      else (case split_dot cs of [] \<Rightarrow> [[c]] | p # ps \<Rightarrow> (c # p) # ps))"

fun join :: "string \<Rightarrow> string list \<Rightarrow> string" where
  "join sep [] = []"
| "join sep [p] = p"
| "join sep (p # q # ps) = p @ sep @ join sep (q # ps)"

text \<open>
  \<open>formatCurrency(amount)\<close> with the \<open>currency\<close> record read from the settings store,
  the built-in default standing in when the record is absent. \<open>None\<close>: \<open>toFixed\<close> threw
  and the promise never resolves.
\<close>

definition default_currency :: currency where
  "default_currency = \<lparr>cur_symbol = ''Rp'', cur_decimal = [], cur_separator = ''.'',
     cur_precision = 0\<rparr>"

definition currency_settings :: "database \<Rightarrow> currency" where
  "currency_settings d =
     (case getRecord_settings ''currency'' d of
        Some (CurrencySetting c) \<Rightarrow> c
      | _ \<Rightarrow> default_currency)"

definition formatCurrency :: "database \<Rightarrow> rat \<Rightarrow> string option" where
  "formatCurrency d amount =
     (let cur = currency_settings d
      in case toFixed amount (cur_precision cur) of
           None \<Rightarrow> None
         | Some fixed \<Rightarrow>
             let formatted = group_thousands (cur_separator cur) None fixed;
                 formatted' =
                   (if cur_decimal cur \<noteq> []
                    then (case split_dot formatted of
                            [] \<Rightarrow> []
                          | p # ps \<Rightarrow>
                              join (if cur_decimal cur = '','' then '','' else ''.'')
                                (group_thousands (cur_separator cur) None p # ps))
                    else formatted)
             in Some (cur_symbol cur @ '' '' @ formatted'))"

text \<open>
  \<open>parseFloat(text.replace(/[^\d]/g, '')) || 0\<close>: every character that is not a digit
  is dropped (the sign, the separators and the decimal point among them) and the
  remaining digits are read as one decimal number, rounded to the nearest double; no
  digit at all gives \<open>0\<close>.
\<close>

definition parse_digits :: "string \<Rightarrow> nat" where
  "parse_digits ds = foldl (\<lambda>n c. 10 * n + digit_value c) 0 ds"

definition displayed_amount :: "string \<Rightarrow> rat" where
  "displayed_amount text = binary64 (of_nat (parse_digits (filter is_digit text)))"

section \<open>Catalog manager\<close>

text \<open>\<open>s.trim()\<close>: white space is removed at both ends.\<close>

definition is_space :: "char \<Rightarrow> bool" where
  "is_space c = (let n = (of_char c :: nat) in (9 \<le> n \<and> n \<le> 13) \<or> n = 32 \<or> n = 160)"

definition trim :: "string \<Rightarrow> string" where
  "trim s = rev (dropWhile is_space (rev (dropWhile is_space s)))"

text \<open>
  The fields of the product form as \<open>saveProduct\<close> reads them: the hidden id (\<open>None\<close>
  when the field is empty, else its \<open>parseInt\<close>), the three text fields, the results
  of \<open>parseFloat\<close> and \<open>parseInt\<close> on the four number fields, and the value of the
  supplier drop-down, a string.
\<close>

record product_form =
  pf_id :: "int option"
  pf_code :: string
  pf_name :: string
  pf_category :: string
  pf_price :: "rat option"
  pf_cost :: "rat option"
  pf_stock :: "int option"
  pf_minStock :: "int option"
  pf_supplier :: string

text \<open>
  \<open>validateProductForm\<close>: the ids of the error elements it fills, in the order of the
  source; the form is valid (\<open>isValid\<close>) when there is none.
\<close>

definition validateProductForm :: "product_form \<Rightarrow> string list" where
  "validateProductForm f =
     (if trim (pf_code f) = [] then [''code-error''] else [])
     @ (if trim (pf_name f) = [] then [''name-error''] else [])
     @ (if trim (pf_category f) = [] then [''category-error''] else [])
     @ (case pf_price f of None \<Rightarrow> [''price-error'']
        | Some v \<Rightarrow> if v < 0 then [''price-error''] else [])
     @ (case pf_cost f of None \<Rightarrow> [''cost-error'']
        | Some v \<Rightarrow> if v < 0 then [''cost-error''] else [])
     @ (case pf_stock f of None \<Rightarrow> [''stock-error'']
        | Some v \<Rightarrow> if v < 0 then [''stock-error''] else [])
     @ (case pf_minStock f of None \<Rightarrow> [''min-stock-error'']
        | Some v \<Rightarrow> if v < 0 then [''min-stock-error''] else [])"

text \<open>
  What a save handler does: the form was refused by validation (with the error
  elements shown), the record was stored, the unique index refused the record and
  the error was shown on the given field, or the write failed otherwise and only the
  failure toast was shown. \<open>Stored\<close> tells that the write succeeded, not what the user
  is told: the continuation after a successful write shows the success toast and
  reloads the lists, and \<open>loadDashboard\<close> throws there (it opens an index \<open>stock\<close>
  that \<open>openDatabase\<close> never creates), so that the handler's \<open>catch\<close> shows the
  failure toast after it. The rendering is not modelled.
\<close>

datatype save_outcome =
    ValidationError "string list"
  | Stored
  | ConstraintViolation string
  | StorageFailure

text \<open>
  \<open>saveProduct\<close>. A valid form has all four numbers, so the last case of the
  \<open>case\<close> is never reached.
\<close>

definition saveProduct :: "int \<Rightarrow> product_form \<Rightarrow> database \<Rightarrow> save_outcome \<times> database" where
  "saveProduct now f d =
     (if validateProductForm f \<noteq> [] then (ValidationError (validateProductForm f), d)
      else case (pf_price f, pf_cost f, pf_stock f, pf_minStock f) of
        (Some price, Some cost, Some stock, Some minStock) \<Rightarrow>
          (let product = \<lparr>p_id = 0, p_code = trim (pf_code f), p_name = trim (pf_name f),
                 p_category = trim (pf_category f), p_price = price, p_cost = cost,
                 p_stock = stock, p_minStock = minStock,
                 p_supplierId = (if pf_supplier f = [] then None else Some (StrKey (pf_supplier f))),
                 p_updatedAt = DateObj now, p_createdAt = None\<rparr>
           in case pf_id f of
                Some i \<Rightarrow>
                  (case updateRecord_products (product\<lparr>p_id := i\<rparr>) d of
                     Inl e \<Rightarrow> (StorageFailure, d)
                   | Inr d' \<Rightarrow> (Stored, d'))
              | None \<Rightarrow>
                  (case addRecord_products (product\<lparr>p_createdAt := Some (DateObj now)\<rparr>) d of
                     Inl e \<Rightarrow> (ConstraintViolation ''code-error'', d)
                   | Inr d' \<Rightarrow> (Stored, d')))
      | _ \<Rightarrow> (ValidationError [], d))"

definition deleteProduct :: "bool \<Rightarrow> int \<Rightarrow> database \<Rightarrow> database" where
  "deleteProduct confirmed i d = (if confirmed then deleteRecord_products i d else d)"

record supplier_form =
  sf_id :: "int option"
  sf_code :: string
  sf_name :: string
  sf_contact :: string
  sf_address :: string
  sf_email :: string
  sf_phone :: string

definition validateSupplierForm :: "supplier_form \<Rightarrow> string list" where
  "validateSupplierForm f =
     (if trim (sf_code f) = [] then [''supplier-code-error''] else [])
     @ (if trim (sf_name f) = [] then [''supplier-name-error''] else [])
     @ (if trim (sf_contact f) = [] then [''supplier-contact-error''] else [])
     @ (if trim (sf_address f) = [] then [''supplier-address-error''] else [])"

definition saveSupplier :: "int \<Rightarrow> supplier_form \<Rightarrow> database \<Rightarrow> save_outcome \<times> database" where
  "saveSupplier now f d =
     (if validateSupplierForm f \<noteq> [] then (ValidationError (validateSupplierForm f), d)
      else
        let supplier = \<lparr>s_id = 0, s_code = trim (sf_code f), s_name = trim (sf_name f),
              s_contact = trim (sf_contact f), s_address = trim (sf_address f),
              s_email = (if trim (sf_email f) = [] then None else Some (trim (sf_email f))),
              s_phone = (if trim (sf_phone f) = [] then None else Some (trim (sf_phone f))),
              s_updatedAt = DateObj now, s_createdAt = None\<rparr>
        in case sf_id f of
             Some i \<Rightarrow>
               (case updateRecord_suppliers (supplier\<lparr>s_id := i\<rparr>) d of
                  Inl e \<Rightarrow> (StorageFailure, d)
                | Inr d' \<Rightarrow> (Stored, d'))
           | None \<Rightarrow>
               (case addRecord_suppliers (supplier\<lparr>s_createdAt := Some (DateObj now)\<rparr>) d of
                  Inl e \<Rightarrow> (ConstraintViolation ''supplier-code-error'', d)
                | Inr d' \<Rightarrow> (Stored, d')))"

text \<open>
  \<open>deleteSupplier(id)\<close>: \<open>id\<close> is a number (the click handler passes the \<open>parseInt\<close>
  of the button's \<open>data-id\<close>), and \<open>index.count(id)\<close> counts the products whose
  \<open>supplierId\<close> is that very key.
\<close>

datatype delete_outcome = Cancelled | ReferentialBlock | SupplierDeleted

definition supplierId_count :: "int \<Rightarrow> database \<Rightarrow> nat" where
  "supplierId_count i d =
     length (filter (\<lambda>p. p_supplierId p = Some (NumKey i)) (rows (products d)))"

definition deleteSupplier :: "bool \<Rightarrow> int \<Rightarrow> database \<Rightarrow> delete_outcome \<times> database" where
  "deleteSupplier confirmed i d =
     (if confirmed
      then (if 0 < supplierId_count i d then (ReferentialBlock, d)
            else (SupplierDeleted, deleteRecord_suppliers i d))
      else (Cancelled, d))"

section \<open>Cart and checkout engine\<close>

record cart_item =
  item_id :: int
  item_code :: string
  item_name :: string
  item_price :: rat
  item_quantity :: int
  item_stock :: int

text \<open>
  The elements of the cashier page that the engine reads and writes: the two
  toggles, the number fields beside them and the amount received (\<open>None\<close>: the field
  is empty), the text of \<open>#total-amount\<close>, the text of \<open>#current-invoice\<close> and the
  selected payment method.
\<close>

record page =
  discount_toggle :: bool
  discount_value :: "rat option"
  tax_toggle :: bool
  tax_value :: "rat option"
  amount_received :: "rat option"
  total_amount :: string
  current_invoice :: string
  payment_method :: string

record app =
  db :: database
  cart :: "cart_item list"
  page :: page

text \<open>\<open>cart.reduce((sum, item) => sum + (item.price * item.quantity), 0)\<close>.\<close>

definition cart_subtotal :: "cart_item list \<Rightarrow> rat" where
  "cart_subtotal c =
     foldl (\<lambda>sum item. binary64 (sum + binary64 (item_price item * of_int (item_quantity item))))
       0 c"

text \<open>
  The local \<open>total\<close> of \<open>calculateTotal\<close>: the discount and the tax are applied only
  when their toggle is checked and their field holds a value above \<open>0\<close>. Each
  operation of \<open>subtotal * (d / 100)\<close>, \<open>total -= discount\<close>, \<open>total * (t / 100)\<close>
  and \<open>total += tax\<close> rounds its result.
\<close>

definition computed_total :: "app \<Rightarrow> rat" where
  "computed_total s =
     (let subtotal = cart_subtotal (cart s);
          total = (case discount_value (page s) of
                     Some d \<Rightarrow> if discount_toggle (page s) \<and> 0 < d
                               then binary64 (subtotal - binary64 (subtotal * binary64 (d / 100)))
                               else subtotal
                   | None \<Rightarrow> subtotal)
      in case tax_value (page s) of
           Some t \<Rightarrow> if tax_toggle (page s) \<and> 0 < t
                     then binary64 (total + binary64 (total * binary64 (t / 100))) else total
         | None \<Rightarrow> total)"

text \<open>\<open>calculateTotal\<close> writes the formatted total into \<open>#total-amount\<close>.\<close>

definition calculateTotal :: "app \<Rightarrow> app" where
  "calculateTotal s =
     (case formatCurrency (db s) (computed_total s) of
        None \<Rightarrow> s
      | Some text \<Rightarrow> s\<lparr>page := (page s)\<lparr>total_amount := text\<rparr>\<rparr>)"

text \<open>\<open>updateCart\<close> renders the cart and, through \<open>updateCartSummary\<close>, the total.\<close>

definition updateCart :: "app \<Rightarrow> app" where
  "updateCart s = calculateTotal s"

text \<open>
  \<open>toggleDiscount\<close> and \<open>toggleTax\<close>, with the new state of the checkbox. Unchecking the
  tax toggle empties the field without recalculating the total.
\<close>

definition toggleDiscount :: "bool \<Rightarrow> app \<Rightarrow> app" where
  "toggleDiscount checked s =
     calculateTotal (s\<lparr>page := (page s)\<lparr>discount_toggle := checked,
        discount_value := (if checked then Some 10 else None)\<rparr>\<rparr>)"


text \<open>
  What a cart operation reports: the cart was changed, the warning toast
  \<open>Stok produk tidak mencukupi\<close> (\<open>InsufficientStock\<close>), the warning toast
  \<open>Stok produk habis\<close> (\<open>OutOfStock\<close>), or nothing happened.
\<close>

datatype cart_outcome = CartChanged | InsufficientStock | OutOfStock | CartUntouched

text \<open>
  \<open>cart.find\<close> returns the first matching line, and the handlers change that object
  in place; \<open>findIndex\<close> with \<open>splice\<close> removes the first matching line.
\<close>

fun update_first :: "('a \<Rightarrow> bool) \<Rightarrow> ('a \<Rightarrow> 'a) \<Rightarrow> 'a list \<Rightarrow> 'a list" where
  "update_first P f [] = []"
| "update_first P f (x # xs) = (if P x then f x # xs else x # update_first P f xs)"

fun remove_first :: "('a \<Rightarrow> bool) \<Rightarrow> 'a list \<Rightarrow> 'a list" where
  "remove_first P [] = []"
| "remove_first P (x # xs) = (if P x then xs else x # remove_first P xs)"

definition addToCart :: "product \<Rightarrow> app \<Rightarrow> cart_outcome \<times> app" where
  "addToCart product s =
     (case find (\<lambda>item. item_id item = p_id product) (cart s) of
        Some existingItem \<Rightarrow>
          if item_quantity existingItem < p_stock product
          then (CartChanged,
                updateCart (s\<lparr>cart := update_first (\<lambda>item. item_id item = p_id product)
                  (\<lambda>item. item\<lparr>item_quantity := item_quantity item + 1\<rparr>) (cart s)\<rparr>))
          else (InsufficientStock, s)
      | None \<Rightarrow>
          if 0 < p_stock product
          then (CartChanged,
                updateCart (s\<lparr>cart := cart s @
                  [\<lparr>item_id = p_id product, item_code = p_code product,
                    item_name = p_name product, item_price = p_price product,
                    item_quantity = 1, item_stock = p_stock product\<rparr>]\<rparr>))
          else (OutOfStock, s))"

definition increaseQuantity :: "int \<Rightarrow> app \<Rightarrow> cart_outcome \<times> app" where
  "increaseQuantity i s =
     (case find (\<lambda>item. item_id item = i) (cart s) of
        Some item \<Rightarrow>
          if item_quantity item < item_stock item
          then (CartChanged,
                updateCart (s\<lparr>cart := update_first (\<lambda>item. item_id item = i)
                  (\<lambda>item. item\<lparr>item_quantity := item_quantity item + 1\<rparr>) (cart s)\<rparr>))
          else (InsufficientStock, s)
      | None \<Rightarrow> (CartUntouched, s))"

definition decreaseQuantity :: "int \<Rightarrow> app \<Rightarrow> cart_outcome \<times> app" where
  "decreaseQuantity i s =
     (case find (\<lambda>item. item_id item = i) (cart s) of
        Some item \<Rightarrow>
          if 1 < item_quantity item
          then (CartChanged,
                updateCart (s\<lparr>cart := update_first (\<lambda>item. item_id item = i)
                  (\<lambda>item. item\<lparr>item_quantity := item_quantity item - 1\<rparr>) (cart s)\<rparr>))
          else (CartUntouched, s)
      | None \<Rightarrow> (CartUntouched, s))"

definition removeFromCart :: "int \<Rightarrow> app \<Rightarrow> cart_outcome \<times> app" where
  "removeFromCart i s =
     (if list_ex (\<lambda>item. item_id item = i) (cart s)
      then (CartChanged, updateCart (s\<lparr>cart := remove_first (\<lambda>item. item_id item = i) (cart s)\<rparr>))
      else (CartUntouched, s))"

text \<open>
  \<open>updateQuantity(id, quantity)\<close>: \<open>quantity\<close> is the \<open>parseInt\<close> of the line's number
  field, \<open>None\<close> for \<open>NaN\<close>. Every comparison with \<open>NaN\<close> is false, so \<open>NaN\<close> takes the
  last branch.
\<close>

definition updateQuantity :: "int \<Rightarrow> int option \<Rightarrow> app \<Rightarrow> cart_outcome \<times> app" where
  "updateQuantity i quantity s =
     (if (case quantity of Some q \<Rightarrow> q < 1 | None \<Rightarrow> False) then removeFromCart i s
      else case find (\<lambda>item. item_id item = i) (cart s) of
        Some item \<Rightarrow>
          (case quantity of
             Some q \<Rightarrow>
               if q \<le> item_stock item
               then (CartChanged,
                     updateCart (s\<lparr>cart := update_first (\<lambda>item. item_id item = i)
                       (\<lambda>item. item\<lparr>item_quantity := q\<rparr>) (cart s)\<rparr>))
               else (InsufficientStock,
                     updateCart (s\<lparr>cart := update_first (\<lambda>item. item_id item = i)
                       (\<lambda>item. item\<lparr>item_quantity := item_stock item\<rparr>) (cart s)\<rparr>))
           | None \<Rightarrow>
               (InsufficientStock,
                updateCart (s\<lparr>cart := update_first (\<lambda>item. item_id item = i)
                  (\<lambda>item. item\<lparr>item_quantity := item_stock item\<rparr>) (cart s)\<rparr>)))
      | None \<Rightarrow> (CartUntouched, s))"

definition clearCart :: "bool \<Rightarrow> app \<Rightarrow> cart_outcome \<times> app" where
  "clearCart confirmed s =
     (if cart s \<noteq> [] \<and> confirmed then (CartChanged, updateCart (s\<lparr>cart := []\<rparr>))
      else (CartUntouched, s))"

text \<open>A cart operation as an event, and a run of such events.\<close>

datatype cart_op =
    AddToCart product
  | IncreaseQuantity int
  | DecreaseQuantity int
  | UpdateQuantity int "int option"
  | RemoveFromCart int
  | ClearCart bool

fun cart_step :: "cart_op \<Rightarrow> app \<Rightarrow> cart_outcome \<times> app" where
  "cart_step (AddToCart product) s = addToCart product s"
| "cart_step (IncreaseQuantity i) s = increaseQuantity i s"
| "cart_step (DecreaseQuantity i) s = decreaseQuantity i s"
| "cart_step (UpdateQuantity i q) s = updateQuantity i q s"
| "cart_step (RemoveFromCart i) s = removeFromCart i s"
| "cart_step (ClearCart confirmed) s = clearCart confirmed s"

fun cart_run :: "cart_op list \<Rightarrow> app \<Rightarrow> app" where
  "cart_run [] s = s"
| "cart_run (x # xs) s = cart_run xs (snd (cart_step x s))"

subsection \<open>Invoice numbers\<close>

text \<open>The clock: the instant in milliseconds and the fields of the local time.\<close>

record clock =
  clk_ms :: int
  clk_year :: nat
  clk_month :: nat
  clk_date :: nat
  clk_hours :: nat
  clk_minutes :: nat
  clk_seconds :: nat

definition padStart2 :: "string \<Rightarrow> string" where
  "padStart2 s = replicate (2 - length s) (CHR ''0'') @ s"

definition generateInvoiceNumber :: "clock \<Rightarrow> string" where
  "generateInvoiceNumber now =
     (let y = digits_of (clk_year now)
      in ''INV-'' @ drop (length y - 2) y
         @ padStart2 (digits_of (clk_month now + 1))
         @ padStart2 (digits_of (clk_date now))
         @ ''-'' @ padStart2 (digits_of (clk_hours now))
         @ padStart2 (digits_of (clk_minutes now))
         @ padStart2 (digits_of (clk_seconds now)))"

subsection \<open>Payment\<close>

text \<open>\<open>x * (parseFloat(field) / 100)\<close>, which is \<open>NaN\<close> for an empty field.\<close>

definition percent_of :: "rat \<Rightarrow> rat option \<Rightarrow> jsnum" where
  "percent_of x field =
     (case field of None \<Rightarrow> NaN | Some v \<Rightarrow> Num (binary64 (x * binary64 (v / 100))))"

text \<open>
  The stock updates of \<open>processPayment\<close>. The reads are all requested before any
  continuation runs, so every line reads the product as it is stored when the
  transaction record has been added; then each continuation subtracts the line's
  quantity and writes the product back. A product that is no longer stored makes
  its continuation throw, a refused write makes it reject; the other lines go on.
  The flag tells whether all of them succeeded.
\<close>

fun write_stocks :: "(cart_item \<times> product option) list \<Rightarrow> database \<Rightarrow> bool \<times> database" where
  "write_stocks [] d = (True, d)"
| "write_stocks ((item, None) # rest) d = (False, snd (write_stocks rest d))"
| "write_stocks ((item, Some product) # rest) d =
     (case updateRecord_products (product\<lparr>p_stock := p_stock product - item_quantity item\<rparr>) d of
        Inl e \<Rightarrow> (False, snd (write_stocks rest d))
      | Inr d' \<Rightarrow> write_stocks rest d')"

definition update_stocks :: "cart_item list \<Rightarrow> database \<Rightarrow> bool \<times> database" where
  "update_stocks c d = write_stocks (map (\<lambda>item. (item, getRecord_products (item_id item) d)) c) d"

text \<open>
  What \<open>processPayment\<close> reports: the two warnings that stop it before any write, the
  failure toast when the transaction record is refused, success, or neither toast
  when the transaction record is stored and a stock update fails (nothing handles
  that rejection, and the cart stays as it is).
\<close>

datatype payment_outcome =
    EmptyCart
  | InsufficientPayment
  | PaymentFailed
  | Committed
  | CommitIncomplete

definition checkout_amount :: "app \<Rightarrow> rat" where
  "checkout_amount s = (case amount_received (page s) of None \<Rightarrow> 0 | Some a \<Rightarrow> a)"

definition checkout_total :: "app \<Rightarrow> rat" where
  "checkout_total s = displayed_amount (total_amount (page s))"

definition new_transaction :: "clock \<Rightarrow> app \<Rightarrow> transaction" where
  "new_transaction now s =
     (let amountReceived = checkout_amount s;
          total = checkout_total s;
          subtotal = cart_subtotal (cart s);
          discount = (if discount_toggle (page s)
                      then percent_of subtotal (discount_value (page s)) else Num 0);
          tax = (if tax_toggle (page s)
                 then (case discount of
                         Num dc \<Rightarrow> percent_of (binary64 (subtotal - dc)) (tax_value (page s))
                       | _ \<Rightarrow> NaN)
                 else Num 0)
      in \<lparr>t_id = 0, t_invoice = current_invoice (page s), t_date = DateObj (clk_ms now),
          t_items = map (\<lambda>item. \<lparr>ti_productId = item_id item, ti_code = item_code item,
                       ti_name = item_name item, ti_price = item_price item,
                       ti_quantity = item_quantity item\<rparr>) (cart s),
          t_subtotal = subtotal, t_discount = discount, t_tax = tax, t_total = total,
          t_paymentMethod = payment_method (page s), t_amountReceived = amountReceived,
          t_change = binary64 (amountReceived - total)\<rparr>)"

text \<open>
  \<open>processPayment\<close>, at the time \<open>now\<close>. The total is not computed: it is read back
  from the text of \<open>#total-amount\<close>. The clock is read once: the time of the
  transaction also stands for the moment, shortly after, at which the next invoice
  number is generated.
\<close>

definition processPayment :: "clock \<Rightarrow> app \<Rightarrow> payment_outcome \<times> app" where
  "processPayment now s =
     (if cart s = [] then (EmptyCart, s)
      else if checkout_amount s < checkout_total s then (InsufficientPayment, s)
      else case addRecord_transactions (new_transaction now s) (db s) of
        Inl e \<Rightarrow> (PaymentFailed, s)
      | Inr d \<Rightarrow>
          (case update_stocks (cart s) d of
             (False, d') \<Rightarrow> (CommitIncomplete, s\<lparr>db := d'\<rparr>)
           | (True, d') \<Rightarrow>
               (let s1 = updateCart (s\<lparr>db := d', cart := []\<rparr>)
                in (Committed,
                    s1\<lparr>page := (page s1)\<lparr>amount_received := None, discount_toggle := False,
                         tax_toggle := False, discount_value := None, tax_value := None,
                         current_invoice := generateInvoiceNumber now\<rparr>\<rparr>))))"

section \<open>Backup and restore\<close>

text \<open>
  \<open>JSON.stringify\<close> followed by \<open>JSON.parse\<close>, on the values of the records: a \<open>Date\<close>
  comes back as the string of its \<open>toISOString()\<close>, \<open>NaN\<close> comes back as \<open>null\<close>;
  finite numbers, strings, booleans and \<open>null\<close> come back as they were.
\<close>

definition json_date :: "jsdate \<Rightarrow> jsdate" where
  "json_date x = (case x of DateObj t \<Rightarrow> IsoString t | IsoString t \<Rightarrow> IsoString t)"

definition json_num :: "jsnum \<Rightarrow> jsnum" where
  "json_num x = (case x of NaN \<Rightarrow> Null | Num v \<Rightarrow> Num v | Null \<Rightarrow> Null)"

definition json_product :: "product \<Rightarrow> product" where
  "json_product p = p\<lparr>p_updatedAt := json_date (p_updatedAt p),
     p_createdAt := map_option json_date (p_createdAt p)\<rparr>"

definition json_supplier :: "supplier \<Rightarrow> supplier" where
  "json_supplier x = x\<lparr>s_updatedAt := json_date (s_updatedAt x),
     s_createdAt := map_option json_date (s_createdAt x)\<rparr>"

definition json_transaction :: "transaction \<Rightarrow> transaction" where
  "json_transaction t = t\<lparr>t_date := json_date (t_date t),
     t_discount := json_num (t_discount t), t_tax := json_num (t_tax t)\<rparr>"

text \<open>
  A backup file as \<open>JSON.parse\<close> reads it: one array for each store name that is
  present among its top-level keys.
\<close>

record backup =
  b_products :: "product list option"
  b_transactions :: "transaction list option"
  b_suppliers :: "supplier list option"
  b_settings :: "setting list option"

text \<open>
  \<open>backupData\<close> writes the \<open>getAll()\<close> of the four stores into the downloaded file;
  the result here is that file as read back. The notifications store is not in it.
\<close>

definition backupData :: "database \<Rightarrow> backup" where
  "backupData d =
     \<lparr>b_products = Some (map json_product (rows (products d))),
      b_transactions = Some (map json_transaction (rows (transactions d))),
      b_suppliers = Some (map json_supplier (rows (suppliers d))),
      b_settings = Some (settings d)\<rparr>"

text \<open>
  The records of one store are added in one IndexedDB transaction. A refused \<open>add\<close>
  aborts it: the store stays as it was cleared and the promise never resolves.
\<close>

fun add_all ::
  "('a \<Rightarrow> int) \<Rightarrow> ('a \<Rightarrow> string) \<Rightarrow> 'a list \<Rightarrow> 'a object_store \<Rightarrow> 'a object_store option" where
  "add_all key uniq [] st = Some st"
| "add_all key uniq (x # xs) st =
     (case store_add_keyed key uniq x st of
        Inl e \<Rightarrow> None
      | Inr st' \<Rightarrow> add_all key uniq xs st')"

definition restore_store ::
  "('a \<Rightarrow> int) \<Rightarrow> ('a \<Rightarrow> string) \<Rightarrow> 'a list option \<Rightarrow> 'a object_store \<Rightarrow> bool \<times> 'a object_store" where
  "restore_store key uniq items st =
     (case items of
        None \<Rightarrow> (True, st)
      | Some xs \<Rightarrow> (case add_all key uniq xs st of None \<Rightarrow> (False, st) | Some st' \<Rightarrow> (True, st')))"

fun add_all_settings :: "setting list \<Rightarrow> setting list \<Rightarrow> setting list option" where
  "add_all_settings [] st = Some st"
| "add_all_settings (x # xs) st =
     (if list_ex (\<lambda>y. setting_id y = setting_id x) st then None
      else add_all_settings xs (insert_setting x st))"

definition restore_settings :: "setting list option \<Rightarrow> bool \<times> setting list" where
  "restore_settings items =
     (case items of
        None \<Rightarrow> (True, [])
      | Some xs \<Rightarrow> (case add_all_settings xs [] of None \<Rightarrow> (False, []) | Some st \<Rightarrow> (True, st)))"

datatype restore_outcome = NoFileSelected | RestoreCancelled | Restored | RestoreIncomplete

text \<open>
  \<open>restoreData\<close>, with the parsed content of the selected file (\<open>None\<close>: no file is
  selected) and the answer to the confirmation dialog.
\<close>

definition restoreData :: "backup option \<Rightarrow> bool \<Rightarrow> database \<Rightarrow> restore_outcome \<times> database" where
  "restoreData file confirmed d =
     (case file of
        None \<Rightarrow> (NoFileSelected, d)
      | Some b \<Rightarrow>
          if \<not> confirmed then (RestoreCancelled, d)
          else
            let (ok1, ps) = restore_store p_id p_code (b_products b) (store_clear (products d));
                (ok2, ts) = restore_store t_id t_invoice (b_transactions b)
                              (store_clear (transactions d));
                (ok3, ss) = restore_store s_id s_code (b_suppliers b) (store_clear (suppliers d));
                (ok4, es) = restore_settings (b_settings b)
            in (if ok1 \<and> ok2 \<and> ok3 \<and> ok4 then Restored else RestoreIncomplete,
                d\<lparr>products := ps, transactions := ts, suppliers := ss, settings := es\<rparr>))"

section \<open>Example values\<close>

text \<open>A small shop used where a statement is instantiated: one product, one cart line.\<close>

definition example_product :: product where
  "example_product = \<lparr>p_id = 1, p_code = ''P1'', p_name = ''Pen'', p_category = ''Office'',
     p_price = 11, p_cost = 5, p_stock = 5, p_minStock = 1, p_supplierId = None,
     p_updatedAt = DateObj 0, p_createdAt = Some (DateObj 0)\<rparr>"

definition example_item :: cart_item where
  "example_item = \<lparr>item_id = 1, item_code = ''P1'', item_name = ''Pen'', item_price = 11,
     item_quantity = 1, item_stock = 5\<rparr>"

definition example_page :: page where
  "example_page = \<lparr>discount_toggle = False, discount_value = None, tax_toggle = False,
     tax_value = None, amount_received = Some 5, total_amount = ''Rp 11'',
     current_invoice = ''INV-260105-120309'', payment_method = ''cash''\<rparr>"

definition example_clock :: clock where
  "example_clock = \<lparr>clk_ms = 1000, clk_year = 2026, clk_month = 0, clk_date = 5,
     clk_hours = 12, clk_minutes = 3, clk_seconds = 9\<rparr>"

definition example_db :: database where
  "example_db = empty_database\<lparr>products := \<lparr>rows = [example_product], keygen = 2\<rparr>\<rparr>"

definition example_app :: app where
  "example_app = \<lparr>db = example_db, cart = [example_item], page = example_page\<rparr>"

section \<open>Predicates and example values of the statements\<close>





text \<open>
  Amounts in the range of the model: no price and no quantity of a cart line is
  negative, no quantity is above \<open>2^53\<close>, and the subtotal and the two percentage
  fields are below \<open>2^53\<close>. No operation of \<open>calculateTotal\<close> or \<open>processPayment\<close>
  overflows on such amounts.
\<close>

definition amounts_in_range :: "app \<Rightarrow> bool" where
  "amounts_in_range s =
     (list_all (\<lambda>item. 0 \<le> item_price item \<and> 0 \<le> item_quantity item
                      \<and> item_quantity item \<le> 2 ^ 53) (cart s)
      \<and> cart_subtotal (cart s) < 2 ^ 53
      \<and> (case discount_value (page s) of None \<Rightarrow> True | Some d \<Rightarrow> \<bar>d\<bar> < 2 ^ 53)
      \<and> (case tax_value (page s) of None \<Rightarrow> True | Some t \<Rightarrow> \<bar>t\<bar> < 2 ^ 53))"

text \<open>
  What IndexedDB maintains for the products store: keys are distinct, the unique
  index on \<open>code\<close> holds, and the key generator is beyond every key.
\<close>

definition wf_products :: "database \<Rightarrow> bool" where
  "wf_products d =
     (distinct (map p_id (rows (products d))) \<and> distinct (map p_code (rows (products d)))
      \<and> list_all (\<lambda>x. p_id x < keygen (products d)) (rows (products d)))"

text \<open>
  A valid cart: one line for each product, and every line's product is stored.
\<close>

definition valid_cart :: "app \<Rightarrow> bool" where
  "valid_cart s =
     (distinct (map item_id (cart s))
      \<and> list_all (\<lambda>item. getRecord_products (item_id item) (db s) \<noteq> None) (cart s))"

text \<open>A product after the sale of the cart: its stock less the quantity of its line.\<close>

definition sold :: "cart_item list \<Rightarrow> product \<Rightarrow> product" where
  "sold c x =
     (case find (\<lambda>item. item_id item = p_id x) c of
        None \<Rightarrow> x
      | Some item \<Rightarrow> x\<lparr>p_stock := p_stock x - item_quantity item\<rparr>)"

text \<open>The record that a payment stores: the new transaction under the next key.\<close>

definition stored_transaction :: "clock \<Rightarrow> app \<Rightarrow> transaction" where
  "stored_transaction now s = (new_transaction now s)\<lparr>t_id := keygen (transactions (db s))\<rparr>"

text \<open>
  The example shop with the amount 11 received for the total 11 shown, and the same
  with a stored transaction that already bears the invoice number shown on the page.
  (\<open>generateInvoiceNumber\<close> has a resolution of one second; and the text of
  \<open>#current-invoice\<close> is replaced only after a successful commit, so that the first
  commit after every page load bears the text the page is loaded with.)
\<close>

definition paid_app :: app where
  "paid_app = example_app\<lparr>page := example_page\<lparr>amount_received := Some 11\<rparr>\<rparr>"

definition collision_app :: app where
  "collision_app = paid_app\<lparr>db := example_db\<lparr>transactions :=
     \<lparr>rows = [\<lparr>t_id = 1, t_invoice = ''INV-260105-120309'', t_date = DateObj 500, t_items = [],
         t_subtotal = 0, t_discount = Num 0, t_tax = Num 0, t_total = 0,
         t_paymentMethod = ''cash'', t_amountReceived = 0, t_change = 0\<rparr>],
      keygen = 2\<rparr>\<rparr>\<rparr>"



text \<open>
  The same cart with \<open>9.9\<close> typed as the amount received: \<open>parseFloat\<close> reads the
  double nearest to \<open>9.9\<close>, which is the total that \<open>calculateTotal\<close> computes for
  the cart, while the page shows \<open>Rp 10\<close>.
\<close>

definition exact_payment_app :: app where
  "exact_payment_app = calculateTotal \<lparr>db = example_db, cart = [example_item],
     page = example_page\<lparr>discount_toggle := True, discount_value := Some 10,
       amount_received := Some (binary64 (99 / 10))\<rparr>\<rparr>"

text \<open>
  A shop with three products and a cart of two lines: two pieces of the first
  product and one of the second, 29 shown as the total and 30 received.
\<close>

definition second_product :: product where
  "second_product = \<lparr>p_id = 2, p_code = ''P2'', p_name = ''Ink'', p_category = ''Office'',
     p_price = 7, p_cost = 3, p_stock = 3, p_minStock = 1, p_supplierId = None,
     p_updatedAt = DateObj 0, p_createdAt = Some (DateObj 0)\<rparr>"

definition third_product :: product where
  "third_product = \<lparr>p_id = 3, p_code = ''P3'', p_name = ''Glue'', p_category = ''Office'',
     p_price = 4, p_cost = 2, p_stock = 9, p_minStock = 1, p_supplierId = None,
     p_updatedAt = DateObj 0, p_createdAt = Some (DateObj 0)\<rparr>"

definition second_item :: cart_item where
  "second_item = \<lparr>item_id = 2, item_code = ''P2'', item_name = ''Ink'', item_price = 7,
     item_quantity = 1, item_stock = 3\<rparr>"

definition shop_db :: database where
  "shop_db = empty_database\<lparr>products :=
     \<lparr>rows = [example_product, second_product, third_product], keygen = 4\<rparr>\<rparr>"

definition shop_app :: app where
  "shop_app = \<lparr>db = shop_db, cart = [example_item\<lparr>item_quantity := 2\<rparr>, second_item],
     page = example_page\<lparr>amount_received := Some 30, total_amount := ''Rp 29''\<rparr>\<rparr>"

text \<open>
  The example shop with that cart of two lines, 18 shown and 18 received, after the
  second product was deleted on the products page: its line is still in the cart.
\<close>

definition orphan_line_app :: app where
  "orphan_line_app = \<lparr>db = example_db, cart = [second_item, example_item],
     page = example_page\<lparr>amount_received := Some 18, total_amount := ''Rp 18''\<rparr>\<rparr>"

text \<open>
  The example cart with the tax toggle checked (the tax field then holds the default
  10 percent) and unchecked again, and 12 received for the total that is still shown.
  And the cart with the tax toggle left checked: the page shows the total of the
  cart, \<open>Rp 12\<close> for the \<open>12.1\<close> computed, and 12 is received.
\<close>


definition taxed_app :: app where
  "taxed_app = example_app\<lparr>page := example_page\<lparr>amount_received := Some 12,
     tax_toggle := True, tax_value := Some 10\<rparr>\<rparr>"


definition underpaid_app :: app where
  "underpaid_app = calculateTotal taxed_app"

text \<open>A catalog with one product and one supplier, and two forms that reuse their codes.\<close>

definition example_supplier :: supplier where
  "example_supplier = \<lparr>s_id = 1, s_code = ''S1'', s_name = ''Paper Mill'', s_contact = ''Ana'',
     s_address = ''Mill Road 1'', s_email = None, s_phone = None,
     s_updatedAt = DateObj 0, s_createdAt = Some (DateObj 0)\<rparr>"

definition catalog_db :: database where
  "catalog_db = example_db\<lparr>suppliers := \<lparr>rows = [example_supplier], keygen = 2\<rparr>\<rparr>"

definition duplicate_product_form :: product_form where
  "duplicate_product_form = \<lparr>pf_id = None, pf_code = '' P1 '', pf_name = ''Pencil'',
     pf_category = ''Office'', pf_price = Some 7, pf_cost = Some 3, pf_stock = Some 10,
     pf_minStock = Some 2, pf_supplier = []\<rparr>"

definition duplicate_supplier_form :: supplier_form where
  "duplicate_supplier_form = \<lparr>sf_id = None, sf_code = ''S1'', sf_name = ''Ink Works'',
     sf_contact = ''Budi'', sf_address = ''Ink Lane 2'', sf_email = [], sf_phone = []\<rparr>"

text \<open>
  The invariant of the cart: every line has a quantity of at least 1 and at most
  the stock snapshot of the line. And a weaker one: quantity and snapshot are at
  least 1.
\<close>

definition cart_within_stock :: "cart_item list \<Rightarrow> bool" where
  "cart_within_stock c =
     list_all (\<lambda>item. 1 \<le> item_quantity item \<and> item_quantity item \<le> item_stock item) c"

definition cart_positive :: "cart_item list \<Rightarrow> bool" where
  "cart_positive c = list_all (\<lambda>item. 1 \<le> item_quantity item \<and> 1 \<le> item_stock item) c"

text \<open>
  A run of cart operations in which every \<open>addToCart\<close> of a product that is already
  in the cart passes a product whose stock is not above the snapshot of its line.
\<close>

fun adds_within_snapshot :: "cart_op list \<Rightarrow> app \<Rightarrow> bool" where
  "adds_within_snapshot [] s = True"
| "adds_within_snapshot (x # xs) s =
     ((case x of
         AddToCart product \<Rightarrow>
           (case find (\<lambda>item. item_id item = p_id product) (cart s) of
              Some item \<Rightarrow> p_stock product \<le> item_stock item
            | None \<Rightarrow> True)
       | _ \<Rightarrow> True)
      \<and> adds_within_snapshot xs (snd (cart_step x s)))"

text \<open>
  The example shop with an empty cart; the example product when one piece is left,
  and the same product read again after its stock was edited to 2.
\<close>

definition empty_cart_app :: app where
  "empty_cart_app = example_app\<lparr>cart := []\<rparr>"

definition last_piece :: product where
  "last_piece = example_product\<lparr>p_stock := 1\<rparr>"

definition restocked_piece :: product where
  "restocked_piece = example_product\<lparr>p_stock := 2\<rparr>"

text \<open>
  A cart filled while five pieces are in stock: the product is added and its
  quantity set to 5. Then the product is edited to a stock of 2 on the products page,
  and the customer pays the 55 shown.
\<close>

definition full_cart_app :: app where
  "full_cart_app = snd (updateQuantity 1 (Some 5) (snd (addToCart example_product empty_cart_app)))"

definition stock_edit_form :: product_form where
  "stock_edit_form = \<lparr>pf_id = Some 1, pf_code = ''P1'', pf_name = ''Pen'',
     pf_category = ''Office'', pf_price = Some 11, pf_cost = Some 5, pf_stock = Some 2,
     pf_minStock = Some 1, pf_supplier = []\<rparr>"

definition oversold_app :: app where
  "oversold_app = full_cart_app\<lparr>
     db := snd (saveProduct 2000 stock_edit_form (db full_cart_app)),
     page := (page full_cart_app)\<lparr>amount_received := Some 55\<rparr>\<rparr>"

text \<open>
  A database in which a supplier is created and then a product that names it: the
  drop-down of the product form offers the supplier under its id, and its value is
  the string \<open>"1"\<close>.
\<close>

definition new_supplier_form :: supplier_form where
  "new_supplier_form = \<lparr>sf_id = None, sf_code = ''S1'', sf_name = ''Paper Mill'',
     sf_contact = ''Ana'', sf_address = ''Mill Road 1'', sf_email = [], sf_phone = []\<rparr>"

definition supplied_product_form :: product_form where
  "supplied_product_form = \<lparr>pf_id = None, pf_code = ''P1'', pf_name = ''Pen'',
     pf_category = ''Office'', pf_price = Some 11, pf_cost = Some 5, pf_stock = Some 5,
     pf_minStock = Some 1, pf_supplier = ''1''\<rparr>"

definition supplied_db :: database where
  "supplied_db = snd (saveProduct 2000 supplied_product_form
     (snd (saveSupplier 1000 new_supplier_form empty_database)))"

text \<open>The database of the example shop after its cart was paid.\<close>

definition sold_db :: database where
  "sold_db = db (snd (processPayment example_clock paid_app))"

section \<open>Rounding to a double\<close>

lemma round_even_of_int: "round_even (of_int n) = n"
  by (simp add: round_even_def)




lemma two_powi_pos: "0 < (2::rat) powi e"
  by (simp add: zero_less_power_int)

lemma two_powi_less_D: "(2::rat) powi a < 2 powi b \<Longrightarrow> a < b"
  using power_int_increasing [of b a "2::rat"] by (cases "a < b") simp_all

lemma exponent_of_bounds:
  assumes "x \<noteq> 0"
  shows "2 powi exponent_of x \<le> \<bar>x\<bar> \<and> \<bar>x\<bar> < 2 powi (exponent_of x + 1)"
proof (cases "1 \<le> \<bar>x\<bar>")
  case True
  define n where "n = \<lfloor>\<bar>x\<bar>\<rfloor>"
  have n: "0 < n" using True by (simp add: n_def)
  have b: "2 ^ nat (bitlen n - 1) \<le> n" "n < 2 ^ nat (bitlen n)"
    using bitlen_bounds [OF n] by simp_all
  have k: "1 \<le> bitlen n" using n bitlen_eq_zero_iff [of n] bitlen_nonneg [of n] by linarith
  have e: "exponent_of x = bitlen n - 1" using True by (simp add: exponent_of_def n_def)
  have "(2::rat) powi (bitlen n - 1) = of_int (2 ^ nat (bitlen n - 1))"
    using k by (simp add: power_int_def)
  also have "\<dots> \<le> of_int n" using b(1) by (simp only: of_int_le_iff)
  also have "\<dots> \<le> \<bar>x\<bar>" by (simp add: n_def)
  finally have lo: "2 powi (bitlen n - 1) \<le> \<bar>x\<bar>" .
  have "n + 1 \<le> 2 ^ nat (bitlen n)" using b(2) by simp
  then have "(of_int (n + 1) :: rat) \<le> of_int (2 ^ nat (bitlen n))" by (simp only: of_int_le_iff)
  moreover have "\<bar>x\<bar> < of_int (n + 1)" unfolding n_def by linarith
  ultimately have "\<bar>x\<bar> < of_int (2 ^ nat (bitlen n))" by linarith
  also have "\<dots> = 2 powi (bitlen n)" using k by (simp add: power_int_def)
  finally show ?thesis using lo e by simp
next
  case False
  define y where "y = 1 / \<bar>x\<bar>"
  define m where "m = \<lceil>y\<rceil>"
  have ax: "0 < \<bar>x\<bar>" "\<bar>x\<bar> < 1" using assms False by simp_all
  have y: "1 < y" using ax by (simp add: y_def)
  have m: "0 < m - 1" using y unfolding m_def by linarith
  have b: "2 ^ nat (bitlen (m - 1) - 1) \<le> m - 1" "m - 1 < 2 ^ nat (bitlen (m - 1))"
    using bitlen_bounds [OF m] by simp_all
  have k: "1 \<le> bitlen (m - 1)"
    using m bitlen_eq_zero_iff [of "m - 1"] bitlen_nonneg [of "m - 1"] by linarith
  define k' where "k' = bitlen (m - 1)"
  have e: "exponent_of x = - k'" using False by (simp add: exponent_of_def m_def y_def k'_def)
  have "m \<le> 2 ^ nat k'" using b(2) by (simp add: k'_def)
  then have "(of_int m :: rat) \<le> of_int (2 ^ nat k')" by (simp only: of_int_le_iff)
  moreover have "y \<le> of_int m" unfolding m_def by linarith
  ultimately have "y \<le> of_int (2 ^ nat k')" by linarith
  also have "\<dots> = 2 powi k'" using k by (simp add: power_int_def k'_def)
  finally have yhi: "y \<le> 2 powi k'" .
  have "(of_int (2 ^ nat (k' - 1)) :: rat) \<le> of_int (m - 1)"
    using b(1) unfolding k'_def by (simp only: of_int_le_iff)
  moreover have "of_int (m - 1) < y" unfolding m_def by linarith
  ultimately have "of_int (2 ^ nat (k' - 1)) < y" by linarith
  moreover have "(of_int (2 ^ nat (k' - 1)) :: rat) = 2 powi (k' - 1)"
    using k by (simp add: power_int_def k'_def)
  ultimately have ylo: "2 powi (k' - 1) < y" by simp
  have p: "0 < (2::rat) powi k'" "0 < (2::rat) powi (k' - 1)" by (rule two_powi_pos)+
  have "1 / 2 powi k' \<le> \<bar>x\<bar>"
    using yhi ax p unfolding y_def by (simp add: field_simps)
  then have lo: "2 powi (- k') \<le> \<bar>x\<bar>" by (simp add: power_int_minus_divide)
  have "\<bar>x\<bar> < 1 / 2 powi (k' - 1)"
    using ylo ax p unfolding y_def by (simp add: field_simps)
  then have "\<bar>x\<bar> < 2 powi (- (k' - 1))" by (simp only: power_int_minus_divide)
  moreover have "- (k' - 1) = - k' + 1" by simp
  ultimately have hi: "\<bar>x\<bar> < 2 powi (- k' + 1)" by simp
  show ?thesis using lo hi e by simp
qed

lemma exponent_of_eqI:
  assumes "2 powi e \<le> \<bar>x\<bar>" "\<bar>x\<bar> < 2 powi (e + 1)"
  shows "exponent_of x = e"
proof -
  have x: "x \<noteq> 0" using assms(1) two_powi_pos [of e] by (cases "x = 0") (simp_all add: not_le)
  note b = exponent_of_bounds [OF x]
  have "(2::rat) powi e < 2 powi (exponent_of x + 1)" using assms(1) b by linarith
  then have 1: "e < exponent_of x + 1" by (rule two_powi_less_D)
  have "(2::rat) powi exponent_of x < 2 powi (e + 1)" using assms(2) b by linarith
  then have 2: "exponent_of x < e + 1" by (rule two_powi_less_D)
  from 1 2 show ?thesis by linarith
qed

lemma binary64_at:
  assumes "2 powi e \<le> \<bar>x\<bar>" "\<bar>x\<bar> < 2 powi (e + 1)" "- 1022 \<le> e"
  shows "binary64 x = of_int (round_even (x / 2 powi (e - 52))) * 2 powi (e - 52)"
proof -
  have x: "x \<noteq> 0" using assms(1) two_powi_pos [of e] by (cases "x = 0") (simp_all add: not_le)
  have "max (exponent_of x) (- 1022) = e" using exponent_of_eqI [OF assms(1,2)] assms(3) by simp
  then show ?thesis using x by (simp add: binary64_def Let_def)
qed



lemma binary64_exact:
  assumes m: "\<bar>m\<bar> \<le> 2 ^ 53" and k: "- 1074 \<le> k"
  shows "binary64 (of_int m * 2 powi k) = of_int m * 2 powi k"
proof (cases "m = 0")
  case True then show ?thesis by (simp add: binary64_def)
next
  case False
  define x :: rat where "x = of_int m * 2 powi k"
  define e where "e = max (exponent_of x) (- 1022)"
  have x: "x \<noteq> 0" using False by (simp add: x_def)
  note b = exponent_of_bounds [OF x]
  have ax: "\<bar>x\<bar> = of_int \<bar>m\<bar> * 2 powi k"
    using two_powi_pos [of k] by (simp add: x_def abs_mult)
  have "(of_int \<bar>m\<bar> :: rat) \<le> of_int (2 ^ 53)" using m by (simp only: of_int_le_iff)
  then have "(of_int \<bar>m\<bar> :: rat) \<le> 2 powi 53" by simp
  then have "\<bar>x\<bar> \<le> 2 powi 53 * 2 powi k"
    unfolding ax using two_powi_pos [of k] by (simp add: mult_right_mono)
  then have le: "\<bar>x\<bar> \<le> 2 powi (53 + k)" by (simp add: power_int_add)
  have "(2::rat) powi exponent_of x < 2 powi (53 + k + 1)"
  proof -
    have "(2::rat) powi (53 + k) < 2 powi (53 + k + 1)"
      by (rule power_int_strict_increasing) simp_all
    then show ?thesis using b le by linarith
  qed
  then have "exponent_of x < 53 + k + 1" by (rule two_powi_less_D)
  then have e_le: "e \<le> 53 + k" using k by (simp add: e_def)
  have split: "(2::rat) powi k = 2 powi (k - (e - 52)) * 2 powi (e - 52)"
    by (simp flip: power_int_add)
  show ?thesis
  proof (cases "e = 53 + k")
    case False
    then have d: "0 \<le> k - (e - 52)" using e_le by simp
    have "x / 2 powi (e - 52) = of_int m * 2 powi (k - (e - 52))"
      unfolding x_def using two_powi_pos [of "e - 52"] by (subst split) simp
    also have "\<dots> = of_int (m * 2 ^ nat (k - (e - 52)))" using d by (simp add: power_int_def)
    finally have "round_even (x / 2 powi (e - 52)) = m * 2 ^ nat (k - (e - 52))"
      by (simp only: round_even_of_int)
    then have "binary64 x = of_int (m * 2 ^ nat (k - (e - 52))) * 2 powi (e - 52)"
      using x by (simp add: binary64_def Let_def e_def)
    also have "\<dots> = of_int m * (2 powi (k - (e - 52)) * 2 powi (e - 52))"
      using d by (simp add: power_int_def)
    also have "\<dots> = x" by (simp only: split [symmetric] x_def)
    finally show ?thesis by (simp add: x_def)
  next
    case True
    then have "exponent_of x = 53 + k" using k by (simp add: e_def max_def split: if_splits)
    then have "2 powi (53 + k) \<le> \<bar>x\<bar>" using b by simp
    then have eq: "\<bar>x\<bar> = 2 powi (53 + k)" using le by simp
    have "of_int \<bar>m\<bar> * 2 powi k = (2::rat) powi 53 * 2 powi k"
      using eq ax by (simp add: power_int_add)
    then have "(of_int \<bar>m\<bar> :: rat) = 2 powi 53" using two_powi_pos [of k] by simp
    then have "(of_int \<bar>m\<bar> :: rat) = of_int (2 ^ 53)" by simp
    then have am: "\<bar>m\<bar> = 2 ^ 53" by (simp only: of_int_eq_iff)
    have u: "e - 52 = k + 1" using True by simp
    have p: "(2::rat) powi (k + 1) = 2 * 2 powi k" by (simp add: power_int_add)
    have "m = 2 ^ 53 \<or> m = - (2 ^ 53)" using am by linarith
    then have "m = 2 * (m div 2)" by auto
    then have "(of_int m :: rat) = of_int (2 * (m div 2))" by simp
    then have half: "(of_int m :: rat) = 2 * of_int (m div 2)" by simp
    have "x / 2 powi (e - 52) = of_int (m div 2)"
      unfolding x_def u p half using two_powi_pos [of k] by simp
    then have "round_even (x / 2 powi (e - 52)) = m div 2" by (simp only: round_even_of_int)
    then have "binary64 x = of_int (m div 2) * 2 powi (e - 52)"
      using x by (simp add: binary64_def Let_def e_def)
    also have "\<dots> = (2 * of_int (m div 2)) * 2 powi k" unfolding u p by simp
    finally show ?thesis unfolding half [symmetric] by (simp add: x_def)
  qed
qed

lemma binary64_of_int: "\<bar>n\<bar> \<le> 2 ^ 53 \<Longrightarrow> binary64 (of_int n) = of_int n"
  using binary64_exact [of n 0] by simp

lemma binary64_of_nat: "n \<le> 2 ^ 53 \<Longrightarrow> binary64 (of_nat n) = of_nat n"
  using binary64_of_int [of "int n"] by simp










text \<open>Evaluation of \<open>binary64\<close> on a fraction of two numerals.\<close>

lemma floor_numeral_div: "\<lfloor>(numeral a / numeral b :: rat)\<rfloor> = numeral a div numeral b"
  using floor_divide_of_int_eq [of "numeral a" "numeral b", where ?'a = rat] by simp

lemma ceiling_numeral_div:
  "\<lceil>numeral a / numeral b :: rat\<rceil> = - ((- numeral a) div numeral b)"
  using ceiling_divide_eq_div [of "numeral a" "numeral b", where ?'a = rat] by simp

lemmas binary64_eval = binary64_def exponent_of_def round_even_def Let_def compute_bitlen
  floor_numeral_div ceiling_numeral_div

lemma binary64_small_numeral:
  "numeral n \<le> (2::int) ^ 53 \<Longrightarrow> binary64 (numeral n) = numeral n"
  using binary64_of_int [of "numeral n"] by simp




section \<open>What the cart operations leave alone\<close>

lemma db_calculateTotal: "db (calculateTotal s) = db s"
  by (simp add: calculateTotal_def split: option.splits)

lemma cart_calculateTotal: "cart (calculateTotal s) = cart s"
  by (simp add: calculateTotal_def split: option.splits)

lemma db_addToCart: "db (snd (addToCart product s)) = db s"
  by (simp add: addToCart_def updateCart_def db_calculateTotal split: option.splits)

lemma db_increaseQuantity: "db (snd (increaseQuantity i s)) = db s"
  by (simp add: increaseQuantity_def updateCart_def db_calculateTotal split: option.splits)

lemma db_decreaseQuantity: "db (snd (decreaseQuantity i s)) = db s"
  by (simp add: decreaseQuantity_def updateCart_def db_calculateTotal split: option.splits)

lemma db_removeFromCart: "db (snd (removeFromCart i s)) = db s"
  by (simp add: removeFromCart_def updateCart_def db_calculateTotal)

lemma db_updateQuantity: "db (snd (updateQuantity i q s)) = db s"
  by (simp add: updateQuantity_def updateCart_def db_calculateTotal db_removeFromCart
      split: option.splits)

lemma db_clearCart: "db (snd (clearCart confirmed s)) = db s"
  by (simp add: clearCart_def updateCart_def db_calculateTotal)

lemma db_cart_step: "db (snd (cart_step x s)) = db s"
  by (cases x) (simp_all add: db_addToCart db_increaseQuantity db_decreaseQuantity
      db_updateQuantity db_removeFromCart db_clearCart)

lemma db_cart_run: "db (cart_run xs s) = db s"
  by (induction xs arbitrary: s) (simp_all add: db_cart_step)

lemma processPayment_writes_only_after_guards:
  assumes "db (snd (processPayment now s)) \<noteq> db s"
  shows "cart s \<noteq> [] \<and> \<not> checkout_amount s < checkout_total s
     \<and> (\<exists>d. addRecord_transactions (new_transaction now s) (db s) = Inr d)"
  using assms by (auto simp: processPayment_def split: if_splits sum.splits)

lemma example_checkout_total: "checkout_total example_app = 11"
  by (simp add: checkout_total_def example_app_def example_page_def displayed_amount_def
      parse_digits_def is_digit_def digit_value_def binary64_small_numeral)

lemma example_checkout_amount: "checkout_amount example_app = 5"
  by (simp add: checkout_amount_def example_app_def example_page_def)

section \<open>The total that is read back from the page\<close>

lemma digit_char_cases:
  "(\<forall>i<10. is_digit (''0123456789'' ! i)) \<and> (\<forall>i<10. digit_value (''0123456789'' ! i) = i)"
  by (simp add: is_digit_def digit_value_def less_Suc_eq eval_nat_numeral)

lemma is_digit_digit_char: "is_digit (digit_char d)"
  using digit_char_cases by (simp add: digit_char_def)

lemma digit_value_digit_char: "digit_value (digit_char d) = d mod 10"
  using digit_char_cases by (simp add: digit_char_def)

lemma filter_digits_of: "filter is_digit (digits_of n) = digits_of n"
proof (induction n rule: digits_of.induct)
  case (1 n)
  show ?case
  proof (cases "n < 10")
    case True
    then show ?thesis by (simp add: digits_of.simps [of n] is_digit_digit_char)
  next
    case False
    with 1 show ?thesis by (simp add: digits_of.simps [of n] is_digit_digit_char)
  qed
qed

lemma parse_digits_snoc: "parse_digits (xs @ [c]) = 10 * parse_digits xs + digit_value c"
  by (simp add: parse_digits_def)

lemma parse_digits_digits_of: "parse_digits (digits_of n) = n"
proof (induction n rule: digits_of.induct)
  case (1 n)
  show ?case
  proof (cases "n < 10")
    case True
    then show ?thesis
      by (simp add: digits_of.simps [of n] parse_digits_def digit_value_digit_char)
  next
    case False
    with 1 have "parse_digits (digits_of (n div 10)) = n div 10" by simp
    with False show ?thesis
      by (simp add: digits_of.simps [of n] parse_digits_snoc digit_value_digit_char)
  qed
qed

lemma filter_group_thousands:
  "filter is_digit sep = [] \<Longrightarrow>
   filter is_digit (group_thousands sep prev s) = filter is_digit s"
  by (induction s arbitrary: prev) (simp_all add: Let_def)

text \<open>
  Under the default currency format the digits shown are those of the amount
  rounded to the nearest integer, the sign left out.
\<close>

lemma displayed_amount_default_format:
  assumes "currency_settings d = default_currency"
  shows "\<exists>text. formatCurrency d x = Some text
           \<and> displayed_amount text = binary64 (of_int \<lfloor>\<bar>x\<bar> + 1 / 2\<rfloor>)"
proof -
  let ?n = "nat \<lfloor>\<bar>x\<bar> + 1 / 2\<rfloor>"
  let ?fixed = "(if x < 0 then ''-'' else []) @ digits_of ?n"
  have fx: "toFixed x 0 = Some ?fixed"
    by (simp add: toFixed_def Let_def)
  have fmt: "formatCurrency d x = Some (''Rp'' @ '' '' @ group_thousands ''.'' None ?fixed)"
    using assms fx by (simp add: formatCurrency_def default_currency_def)
  have sep: "filter is_digit ''.'' = []" by (simp add: is_digit_def)
  have "filter is_digit (''Rp'' @ '' '' @ group_thousands ''.'' None ?fixed) = digits_of ?n"
    by (simp add: filter_group_thousands [OF sep] filter_digits_of) (simp add: is_digit_def)
  then have "displayed_amount (''Rp'' @ '' '' @ group_thousands ''.'' None ?fixed)
      = binary64 (of_nat ?n)"
    by (simp only: displayed_amount_def parse_digits_digits_of)
  moreover have "0 \<le> \<lfloor>\<bar>x\<bar> + 1 / 2\<rfloor>" by simp
  ultimately show ?thesis using fmt by simp
qed

text \<open>Below \<open>2^53\<close> the rounded amount is a double, and is read back as it is.\<close>

lemma round_half_small:
  assumes "\<bar>x\<bar> < (2::rat) ^ 53"
  shows "binary64 (of_int \<lfloor>\<bar>x\<bar> + 1 / 2\<rfloor>) = of_int \<lfloor>\<bar>x\<bar> + 1 / 2\<rfloor>"
proof -
  have "\<bar>x\<bar> + 1 / 2 < of_int (2 ^ 53) + 1" using assms by simp
  then have "\<lfloor>\<bar>x\<bar> + 1 / 2\<rfloor> \<le> 2 ^ 53" by (simp only: floor_le_iff)
  moreover have "0 \<le> \<lfloor>\<bar>x\<bar> + 1 / 2\<rfloor>" by simp
  ultimately have "\<bar>\<lfloor>\<bar>x\<bar> + 1 / 2\<rfloor>\<bar> \<le> 2 ^ 53" by linarith
  then show ?thesis by (rule binary64_of_int)
qed

lemma checkout_total_calculateTotal:
  assumes "currency_settings (db s) = default_currency" and "\<bar>computed_total s\<bar> < 2 ^ 53"
  shows "checkout_total (calculateTotal s) = of_int \<lfloor>\<bar>computed_total s\<bar> + 1 / 2\<rfloor>"
  using displayed_amount_default_format [OF assms(1), of "computed_total s"]
    round_half_small [OF assms(2)]
  by (auto simp: calculateTotal_def checkout_total_def)

section \<open>Totals: discount before tax\<close>

lemma page_calculateTotal:
  "discount_toggle (page (calculateTotal s)) = discount_toggle (page s)"
  "discount_value (page (calculateTotal s)) = discount_value (page s)"
  "tax_toggle (page (calculateTotal s)) = tax_toggle (page s)"
  "tax_value (page (calculateTotal s)) = tax_value (page s)"
  "amount_received (page (calculateTotal s)) = amount_received (page s)"
  "current_invoice (page (calculateTotal s)) = current_invoice (page s)"
  "payment_method (page (calculateTotal s)) = payment_method (page s)"
  by (simp_all add: calculateTotal_def split: option.splits)


lemma computed_total_calculateTotal: "computed_total (calculateTotal s) = computed_total s"
  by (simp add: computed_total_def Let_def cart_calculateTotal page_calculateTotal
      split: option.splits)

lemma calculateTotal_idem: "calculateTotal (calculateTotal s) = calculateTotal s"
proof -
  have "formatCurrency (db (calculateTotal s)) (computed_total (calculateTotal s))
        = formatCurrency (db s) (computed_total s)"
    by (simp add: computed_total_calculateTotal db_calculateTotal)
  then show ?thesis
    by (cases "formatCurrency (db s) (computed_total s)") (simp_all add: calculateTotal_def)
qed

lemma checkout_amount_calculateTotal: "checkout_amount (calculateTotal s) = checkout_amount s"
  by (simp add: checkout_amount_def page_calculateTotal)


lemma currency_example_db: "currency_settings example_db = default_currency"
  by (simp add: currency_settings_def getRecord_settings_def example_db_def empty_database_def)










section \<open>Committing a payment\<close>

lemma store_put_existing:
  assumes "\<not> list_ex (\<lambda>x. key x \<noteq> key r \<and> uniq x = uniq r) (rows st)"
    and "list_ex (\<lambda>x. key x = key r) (rows st)"
    and "key r < keygen st"
  shows "store_put key uniq r st =
           Inr \<lparr>rows = map (\<lambda>x. if key x = key r then r else x) (rows st), keygen = keygen st\<rparr>"
  using assms by (simp add: store_put_def max_def)

lemma write_stocks_rows:
  assumes "distinct (map p_id R0)" and "distinct (map p_code R0)"
    and "list_all (\<lambda>x. p_id x < g) R0"
    and "distinct (map item_id c)"
    and "list_all (\<lambda>item. find (\<lambda>x. p_id x = item_id item) R0 \<noteq> None) c"
    and "\<forall>x. p_id (f x) = p_id x \<and> p_code (f x) = p_code x"
    and "products d = \<lparr>rows = map f R0, keygen = g\<rparr>"
  shows "write_stocks (map (\<lambda>item. (item, find (\<lambda>x. p_id x = item_id item) R0)) c) d =
           (True, d\<lparr>products := \<lparr>rows = map (\<lambda>x. case find (\<lambda>item. item_id item = p_id x) c of
                                                  None \<Rightarrow> f x
                                                | Some item \<Rightarrow> x\<lparr>p_stock := p_stock x - item_quantity item\<rparr>) R0,
                                 keygen = g\<rparr>\<rparr>)"
  using assms(4-)
proof (induction c arbitrary: f d)
  case Nil
  then show ?case by simp
next
  case (Cons it rest)
  from Cons.prems(2) obtain p where p: "find (\<lambda>x. p_id x = item_id it) R0 = Some p"
    by auto
  then have pin: "p \<in> set R0" and pid: "p_id p = item_id it"
    by (auto simp: find_Some_iff)
  let ?r = "p\<lparr>p_stock := p_stock p - item_quantity it\<rparr>"
  let ?f' = "\<lambda>x. if p_id x = item_id it then x\<lparr>p_stock := p_stock x - item_quantity it\<rparr> else f x"
  have same_id: "y = p" if "y \<in> set R0" "p_id y = item_id it" for y
    using that pin pid assms(1) by (metis distinct_map inj_onD)
  have same_code: "y = p" if "y \<in> set R0" "p_code y = p_code p" for y
    using that pin assms(2) by (metis distinct_map inj_onD)
  have noclash: "\<not> list_ex (\<lambda>x. p_id x \<noteq> p_id ?r \<and> p_code x = p_code ?r) (rows (products d))"
    using Cons.prems(3,4) same_code by (auto simp: list_ex_iff)
  have exists: "list_ex (\<lambda>x. p_id x = p_id ?r) (rows (products d))"
    using Cons.prems(3,4) pin by (auto simp: list_ex_iff)
  have small: "p_id ?r < keygen (products d)"
    using Cons.prems(4) assms(3) pin by (auto simp: list_all_iff)
  have rows': "map (\<lambda>x. if p_id x = p_id ?r then ?r else x) (rows (products d)) = map ?f' R0"
    using Cons.prems(3,4) pid same_id by auto
  have put: "updateRecord_products ?r d = Inr (d\<lparr>products := \<lparr>rows = map ?f' R0, keygen = g\<rparr>\<rparr>)"
    using store_put_existing [of p_id ?r p_code "products d", OF noclash exists small] rows'
      Cons.prems(4)
    by (simp add: updateRecord_products_def)
  have f': "\<forall>x. p_id (?f' x) = p_id x \<and> p_code (?f' x) = p_code x"
    using Cons.prems(3) by simp
  have d': "products (d\<lparr>products := \<lparr>rows = map ?f' R0, keygen = g\<rparr>\<rparr>) = \<lparr>rows = map ?f' R0, keygen = g\<rparr>"
    by simp
  have dist: "distinct (map item_id rest)" and notin: "item_id it \<notin> item_id ` set rest"
    using Cons.prems(1) by auto
  have ex: "list_all (\<lambda>item. find (\<lambda>x. p_id x = item_id item) R0 \<noteq> None) rest"
    using Cons.prems(2) by simp
  note IH = Cons.IH [OF dist ex f' d']
  have final: "map (\<lambda>x. case find (\<lambda>item. item_id item = p_id x) rest of
                     None \<Rightarrow> ?f' x
                   | Some item \<Rightarrow> x\<lparr>p_stock := p_stock x - item_quantity item\<rparr>) R0
             = map (\<lambda>x. case find (\<lambda>item. item_id item = p_id x) (it # rest) of
                     None \<Rightarrow> f x
                   | Some item \<Rightarrow> x\<lparr>p_stock := p_stock x - item_quantity item\<rparr>) R0"
  proof (rule map_cong [OF refl])
    fix x assume "x \<in> set R0"
    show "(case find (\<lambda>item. item_id item = p_id x) rest of
                     None \<Rightarrow> ?f' x
                   | Some item \<Rightarrow> x\<lparr>p_stock := p_stock x - item_quantity item\<rparr>)
        = (case find (\<lambda>item. item_id item = p_id x) (it # rest) of
                     None \<Rightarrow> f x
                   | Some item \<Rightarrow> x\<lparr>p_stock := p_stock x - item_quantity item\<rparr>)"
    proof (cases "item_id it = p_id x")
      case True
      with notin have "find (\<lambda>item. item_id item = p_id x) rest = None"
        by (force simp: find_None_iff)
      with True show ?thesis by simp
    next
      case False
      then show ?thesis by (auto split: option.splits)
    qed
  qed
  show ?case
    using p put IH final by simp
qed


lemma set_insert_by_key: "set (insert_by_key key r xs) = insert r (set xs)"
  by (induction xs) auto

lemma length_insert_by_key: "length (insert_by_key key r xs) = Suc (length xs)"
  by (induction xs) auto

lemma addRecord_transactions_fresh:
  assumes "\<not> list_ex (\<lambda>t. t_invoice t = current_invoice (page s)) (rows (transactions (db s)))"
  shows "addRecord_transactions (new_transaction now s) (db s) =
           Inr ((db s)\<lparr>transactions :=
                  \<lparr>rows = insert_by_key t_id (stored_transaction now s) (rows (transactions (db s))),
                   keygen = keygen (transactions (db s)) + 1\<rparr>\<rparr>)"
proof -
  have "t_invoice (new_transaction now s) = current_invoice (page s)"
    by (simp add: new_transaction_def Let_def)
  with assms show ?thesis
    by (simp add: addRecord_transactions_def store_add_def stored_transaction_def)
qed


lemma processPayment_commits:
  assumes "cart s \<noteq> []" and "valid_cart s" and "wf_products (db s)"
    and "\<not> list_ex (\<lambda>t. t_invoice t = current_invoice (page s)) (rows (transactions (db s)))"
    and "checkout_total s \<le> checkout_amount s"
  shows "fst (processPayment now s) = Committed
    \<and> db (snd (processPayment now s)) =
        (db s)\<lparr>transactions :=
                  \<lparr>rows = insert_by_key t_id (stored_transaction now s) (rows (transactions (db s))),
                   keygen = keygen (transactions (db s)) + 1\<rparr>,
               products := \<lparr>rows = map (sold (cart s)) (rows (products (db s))),
                   keygen = keygen (products (db s))\<rparr>\<rparr>
    \<and> cart (snd (processPayment now s)) = []"
proof -
  let ?d1 = "(db s)\<lparr>transactions :=
                  \<lparr>rows = insert_by_key t_id (stored_transaction now s) (rows (transactions (db s))),
                   keygen = keygen (transactions (db s)) + 1\<rparr>\<rparr>"
  let ?R0 = "rows (products (db s))"
  have add: "addRecord_transactions (new_transaction now s) (db s) = Inr ?d1"
    by (rule addRecord_transactions_fresh [OF assms(4)])
  have reads: "map (\<lambda>item. (item, getRecord_products (item_id item) ?d1)) (cart s)
             = map (\<lambda>item. (item, find (\<lambda>x. p_id x = item_id item) ?R0)) (cart s)"
    by (simp add: getRecord_products_def store_get_def)
  have prods: "products ?d1 = \<lparr>rows = map (\<lambda>x. x) ?R0, keygen = keygen (products (db s))\<rparr>"
    by simp
  have ws: "write_stocks (map (\<lambda>item. (item, find (\<lambda>x. p_id x = item_id item) ?R0)) (cart s)) ?d1
      = (True, ?d1\<lparr>products := \<lparr>rows = map (sold (cart s)) ?R0, keygen = keygen (products (db s))\<rparr>\<rparr>)"
    using write_stocks_rows [of ?R0 "keygen (products (db s))" "cart s" "\<lambda>x. x" ?d1] assms(2,3) prods
    by (simp add: wf_products_def valid_cart_def getRecord_products_def store_get_def sold_def
        cong: option.case_cong)
  have us: "update_stocks (cart s) ?d1
      = (True, ?d1\<lparr>products := \<lparr>rows = map (sold (cart s)) ?R0, keygen = keygen (products (db s))\<rparr>\<rparr>)"
    unfolding update_stocks_def reads by (rule ws)
  show ?thesis
    using assms(1,5) add us
    by (simp add: processPayment_def Let_def updateCart_def db_calculateTotal cart_calculateTotal)
qed

lemma find_map_sold:
  "find (\<lambda>x. p_id x = k) (map (sold c) R) = map_option (sold c) (find (\<lambda>x. p_id x = k) R)"
proof -
  have id: "p_id (sold c x) = p_id x" for x
    by (simp add: sold_def split: option.splits)
  show ?thesis by (induction R) (simp_all add: id)
qed

lemma sold_line:
  assumes "distinct (map item_id c)" and "item \<in> set c" and "p_id p = item_id item"
  shows "sold c p = p\<lparr>p_stock := p_stock p - item_quantity item\<rparr>"
proof -
  from assms(2,3) obtain it where it: "find (\<lambda>i. item_id i = p_id p) c = Some it"
    by (cases "find (\<lambda>i. item_id i = p_id p) c") (auto simp: find_None_iff)
  then have "it \<in> set c" and "item_id it = item_id item"
    using assms(3) by (auto simp: find_Some_iff)
  with assms(1,2) have "it = item" by (metis distinct_map inj_onD)
  with it show ?thesis by (simp add: sold_def)
qed

lemma sold_other:
  assumes "\<not> list_ex (\<lambda>item. item_id item = p_id p) c"
  shows "sold c p = p"
proof -
  from assms have "find (\<lambda>i. item_id i = p_id p) c = None"
    by (auto simp: find_None_iff list_ex_iff)
  then show ?thesis by (simp add: sold_def)
qed

lemma paid_app_valid:
  "valid_cart paid_app" "wf_products (db paid_app)" "cart paid_app \<noteq> []"
  "checkout_total paid_app = 11" "checkout_amount paid_app = 11"
  by (simp_all add: paid_app_def example_app_def valid_cart_def wf_products_def example_db_def
      getRecord_products_def store_get_def example_item_def example_product_def
      empty_database_def checkout_total_def checkout_amount_def example_page_def empty_store_def
      displayed_amount_def parse_digits_def is_digit_def digit_value_def binary64_small_numeral)

lemma collision_app_fails:
  "cart collision_app \<noteq> []" "valid_cart collision_app" "wf_products (db collision_app)"
  "checkout_total collision_app = 11" "checkout_amount collision_app = 11"
  "computed_total collision_app = 11"
  "processPayment example_clock collision_app = (PaymentFailed, collision_app)"
  by (simp_all add: collision_app_def paid_app_def example_app_def valid_cart_def wf_products_def
      example_db_def getRecord_products_def store_get_def example_item_def example_product_def
      empty_database_def checkout_total_def checkout_amount_def example_page_def empty_store_def
      displayed_amount_def parse_digits_def is_digit_def digit_value_def
      processPayment_def addRecord_transactions_def store_add_def new_transaction_def
      computed_total_def cart_subtotal_def binary64_eval)

lemma exact_payment_app_facts:
  "cart exact_payment_app = [example_item]"
  "db exact_payment_app = example_db"
  "current_invoice (page exact_payment_app) = ''INV-260105-120309''"
  "checkout_amount exact_payment_app = 5573204538870989 / 562949953421312"
  "computed_total exact_payment_app = 5573204538870989 / 562949953421312"
  "checkout_total exact_payment_app = 10"
proof -
  let ?pre = "\<lparr>db = example_db, cart = [example_item],
     page = example_page\<lparr>discount_toggle := True, discount_value := Some 10,
       amount_received := Some (binary64 (99 / 10))\<rparr>\<rparr>"
  have ct: "computed_total ?pre = 5573204538870989 / 562949953421312"
    by (simp add: computed_total_def cart_subtotal_def example_item_def example_page_def
        binary64_eval)
  then show "computed_total exact_payment_app = 5573204538870989 / 562949953421312"
    by (simp only: exact_payment_app_def computed_total_calculateTotal)
  have "currency_settings (db ?pre) = default_currency"
    by (simp add: currency_example_db)
  moreover have "\<bar>computed_total ?pre\<bar> < 2 ^ 53" by (simp add: ct)
  ultimately have "checkout_total (calculateTotal ?pre)
      = of_int \<lfloor>\<bar>computed_total ?pre\<bar> + 1 / 2\<rfloor>"
    by (rule checkout_total_calculateTotal)
  then show "checkout_total exact_payment_app = 10"
    by (simp add: exact_payment_app_def ct floor_numeral_div)
  show "checkout_amount exact_payment_app = 5573204538870989 / 562949953421312"
    by (simp only: exact_payment_app_def checkout_amount_calculateTotal)
      (simp add: checkout_amount_def example_page_def binary64_eval)
qed (simp_all add: exact_payment_app_def cart_calculateTotal db_calculateTotal
      page_calculateTotal example_page_def)

text \<open>
  Claim C3, as stated, fails, in two ways. A valid, non-empty cart and a sufficient
  amount do not make the commit succeed when the invoice number on the page is
  already used by a stored transaction: the unique index on \<open>invoice\<close> refuses the
  record, the failure toast is shown and nothing is written. And the total that the
  amount is compared with is not the total computed for the cart but the number
  shown on the page: for one line of price 11 under 10 percent discount the computed
  total is the double \<open>9.9\<close>, the page shows \<open>Rp 10\<close>, and the amount \<open>9.9\<close> is
  refused as insufficient, with nothing written.
\<close>

theorem commit_counterexample:
  "cart collision_app \<noteq> [] \<and> valid_cart collision_app \<and> wf_products (db collision_app)
   \<and> computed_total collision_app \<le> checkout_amount collision_app
   \<and> checkout_total collision_app \<le> checkout_amount collision_app
   \<and> processPayment example_clock collision_app = (PaymentFailed, collision_app)
   \<and> cart exact_payment_app \<noteq> [] \<and> valid_cart exact_payment_app
   \<and> wf_products (db exact_payment_app)
   \<and> \<not> list_ex (\<lambda>t. t_invoice t = current_invoice (page exact_payment_app))
          (rows (transactions (db exact_payment_app)))
   \<and> computed_total exact_payment_app = 5573204538870989 / 562949953421312
   \<and> checkout_amount exact_payment_app = 5573204538870989 / 562949953421312
   \<and> computed_total exact_payment_app \<le> checkout_amount exact_payment_app
   \<and> checkout_total exact_payment_app = 10
   \<and> processPayment example_clock exact_payment_app = (InsufficientPayment, exact_payment_app)"
proof -
  note f = exact_payment_app_facts
  have c: "cart exact_payment_app \<noteq> []" by (simp add: f)
  have v: "valid_cart exact_payment_app"
    by (simp add: valid_cart_def f example_item_def example_db_def getRecord_products_def
        store_get_def example_product_def)
  have w: "wf_products (db exact_payment_app)"
    by (simp add: wf_products_def f example_db_def example_product_def)
  have fresh: "\<not> list_ex (\<lambda>t. t_invoice t = current_invoice (page exact_payment_app))
          (rows (transactions (db exact_payment_app)))"
    by (simp add: f example_db_def empty_database_def empty_store_def)
  have lt: "checkout_amount exact_payment_app < checkout_total exact_payment_app"
    by (simp add: f)
  have r: "processPayment example_clock exact_payment_app
      = (InsufficientPayment, exact_payment_app)"
    using c lt by (simp add: processPayment_def)
  show ?thesis
    using c v w fresh r by (simp add: f collision_app_fails)
qed

text \<open>
  Claim C3, amended. Let the cart be non-empty and valid (one line for each product,
  every line's product stored, in a products store as IndexedDB maintains it: keys
  and codes distinct, the key generator beyond every key); let the amount received
  be not below the total that \<open>processPayment\<close> reads from the page, the number spelt
  by the digits of the text of \<open>#total-amount\<close>; and let no stored transaction bear
  the invoice text shown on the page. Then the commit succeeds: exactly one
  transaction record is added, its items are the snapshot of the cart lines, every
  line's product has its stored stock decremented by exactly the line's quantity,
  and no other product record changes.
\<close>

theorem processPayment_commit:
  assumes "processPayment now s = (r, s')"
    and "cart s \<noteq> []" and "valid_cart s" and "wf_products (db s)"
    and "\<not> list_ex (\<lambda>t. t_invoice t = current_invoice (page s)) (rows (transactions (db s)))"
    and "checkout_total s \<le> checkout_amount s"
  shows "r = Committed
    \<and> rows (transactions (db s')) =
        insert_by_key t_id (stored_transaction now s) (rows (transactions (db s)))
    \<and> length (rows (transactions (db s'))) = length (rows (transactions (db s))) + 1
    \<and> t_items (stored_transaction now s) =
        map (\<lambda>item. \<lparr>ti_productId = item_id item, ti_code = item_code item,
               ti_name = item_name item, ti_price = item_price item,
               ti_quantity = item_quantity item\<rparr>) (cart s)
    \<and> rows (products (db s')) = map (sold (cart s)) (rows (products (db s)))
    \<and> (\<forall>item \<in> set (cart s). \<exists>p. getRecord_products (item_id item) (db s) = Some p
          \<and> getRecord_products (item_id item) (db s')
              = Some (p\<lparr>p_stock := p_stock p - item_quantity item\<rparr>))
    \<and> (\<forall>k. \<not> list_ex (\<lambda>item. item_id item = k) (cart s)
          \<longrightarrow> getRecord_products k (db s') = getRecord_products k (db s))"
proof -
  note c = processPayment_commits [OF assms(2-6), of now]
  from c assms(1) have r: "r = Committed" by simp
  from c assms(1) have d: "db s' =
        (db s)\<lparr>transactions :=
                  \<lparr>rows = insert_by_key t_id (stored_transaction now s) (rows (transactions (db s))),
                   keygen = keygen (transactions (db s)) + 1\<rparr>,
               products := \<lparr>rows = map (sold (cart s)) (rows (products (db s))),
                   keygen = keygen (products (db s))\<rparr>\<rparr>" by simp
  have items: "t_items (stored_transaction now s) =
        map (\<lambda>item. \<lparr>ti_productId = item_id item, ti_code = item_code item,
               ti_name = item_name item, ti_price = item_price item,
               ti_quantity = item_quantity item\<rparr>) (cart s)"
    by (simp add: stored_transaction_def new_transaction_def Let_def)
  have get: "getRecord_products k (db s') = map_option (sold (cart s)) (getRecord_products k (db s))"
    for k
    by (simp add: d getRecord_products_def store_get_def find_map_sold)
  have lines: "\<exists>p. getRecord_products (item_id item) (db s) = Some p
          \<and> getRecord_products (item_id item) (db s')
              = Some (p\<lparr>p_stock := p_stock p - item_quantity item\<rparr>)"
    if "item \<in> set (cart s)" for item
  proof -
    from that assms(3) obtain p where p: "getRecord_products (item_id item) (db s) = Some p"
      by (auto simp: valid_cart_def list_all_iff)
    then have "p_id p = item_id item"
      by (auto simp: getRecord_products_def store_get_def find_Some_iff)
    with assms(3) that have "sold (cart s) p = p\<lparr>p_stock := p_stock p - item_quantity item\<rparr>"
      by (simp add: sold_line valid_cart_def)
    with p show ?thesis by (simp add: get)
  qed
  have others: "getRecord_products k (db s') = getRecord_products k (db s)"
    if "\<not> list_ex (\<lambda>item. item_id item = k) (cart s)" for k
  proof (cases "getRecord_products k (db s)")
    case None
    then show ?thesis by (simp add: get)
  next
    case (Some p)
    then have "p_id p = k"
      by (auto simp: getRecord_products_def store_get_def find_Some_iff)
    with that have "sold (cart s) p = p" by (simp add: sold_other)
    with Some show ?thesis by (simp add: get)
  qed
  show ?thesis
    using r items lines others by (simp add: d length_insert_by_key)
qed

lemma shop_app_valid:
  "valid_cart shop_app" "wf_products (db shop_app)" "cart shop_app \<noteq> []"
  "checkout_total shop_app = 29" "checkout_amount shop_app = 30"
  "\<not> list_ex (\<lambda>t. t_invoice t = current_invoice (page shop_app))
          (rows (transactions (db shop_app)))"
  "rows (transactions (db shop_app)) = []"
  "rows (products (db shop_app)) = [example_product, second_product, third_product]"
  "\<not> list_ex (\<lambda>item. item_id item = 3) (cart shop_app)"
  by (simp_all add: shop_app_def shop_db_def valid_cart_def wf_products_def
      getRecord_products_def store_get_def example_item_def second_item_def example_product_def
      second_product_def third_product_def
      empty_database_def checkout_total_def checkout_amount_def example_page_def empty_store_def
      displayed_amount_def parse_digits_def is_digit_def digit_value_def binary64_small_numeral)

theorem processPayment_commit_witness:
  "cart shop_app \<noteq> [] \<and> valid_cart shop_app \<and> wf_products (db shop_app)
   \<and> \<not> list_ex (\<lambda>t. t_invoice t = current_invoice (page shop_app))
          (rows (transactions (db shop_app)))
   \<and> checkout_total shop_app \<le> checkout_amount shop_app
   \<and> fst (processPayment example_clock shop_app) = Committed
   \<and> rows (transactions (db shop_app)) = []
   \<and> rows (transactions (db (snd (processPayment example_clock shop_app)))) =
        [stored_transaction example_clock shop_app]
   \<and> map ti_productId (t_items (stored_transaction example_clock shop_app)) = [1, 2]
   \<and> map ti_quantity (t_items (stored_transaction example_clock shop_app)) = [2, 1]
   \<and> rows (products (db shop_app)) = [example_product, second_product, third_product]
   \<and> rows (products (db (snd (processPayment example_clock shop_app)))) =
        [example_product\<lparr>p_stock := 3\<rparr>, second_product\<lparr>p_stock := 2\<rparr>, third_product]
   \<and> \<not> list_ex (\<lambda>item. item_id item = 3) (cart shop_app)
   \<and> getRecord_products 3 (db (snd (processPayment example_clock shop_app)))
        = Some third_product"
proof -
  note v = shop_app_valid
  have le: "checkout_total shop_app \<le> checkout_amount shop_app"
    by (simp add: v)
  have run: "processPayment example_clock shop_app =
     (fst (processPayment example_clock shop_app), snd (processPayment example_clock shop_app))"
    by simp
  note t = processPayment_commit [OF run v(3,1,2,6) le]
  have pr: "sold (cart shop_app) example_product = example_product\<lparr>p_stock := 3\<rparr>"
    "sold (cart shop_app) second_product = second_product\<lparr>p_stock := 2\<rparr>"
    "sold (cart shop_app) third_product = third_product"
    by (simp_all add: shop_app_def sold_def example_item_def second_item_def
        example_product_def second_product_def third_product_def)
  have third: "getRecord_products 3 (db shop_app) = Some third_product"
    by (simp add: shop_app_def shop_db_def getRecord_products_def store_get_def
        example_product_def second_product_def third_product_def)
  have items: "map ti_productId (t_items (stored_transaction example_clock shop_app)) = [1, 2]"
    "map ti_quantity (t_items (stored_transaction example_clock shop_app)) = [2, 1]"
    by (simp_all add: stored_transaction_def new_transaction_def Let_def shop_app_def
        example_item_def second_item_def)
  from t v(9)
  have "getRecord_products 3 (db (snd (processPayment example_clock shop_app)))
        = getRecord_products 3 (db shop_app)" by blast
  with third
  have other: "getRecord_products 3 (db (snd (processPayment example_clock shop_app)))
        = Some third_product" by simp
  show ?thesis
    using t le v items other by (simp add: pr)
qed

section \<open>Payment below the total\<close>

lemma taxed_app_total: "computed_total taxed_app = 6811694436397875 / 562949953421312"
  by (simp add: computed_total_def cart_subtotal_def taxed_app_def example_app_def
      example_item_def example_page_def binary64_eval)

lemma taxed_app_checkout: "checkout_total (calculateTotal taxed_app) = 12"
proof -
  have "currency_settings (db taxed_app) = default_currency"
    by (simp add: taxed_app_def example_app_def currency_example_db)
  moreover have "\<bar>computed_total taxed_app\<bar> < 2 ^ 53" by (simp add: taxed_app_total)
  ultimately have "checkout_total (calculateTotal taxed_app)
      = of_int \<lfloor>\<bar>computed_total taxed_app\<bar> + 1 / 2\<rfloor>"
    by (rule checkout_total_calculateTotal)
  then show ?thesis by (simp add: taxed_app_total floor_numeral_div)
qed

lemma underpaid_app_facts:
  "cart underpaid_app = [example_item]"
  "db underpaid_app = example_db"
  "current_invoice (page underpaid_app) = ''INV-260105-120309''"
  "checkout_amount underpaid_app = 12"
  "computed_total underpaid_app = 6811694436397875 / 562949953421312"
  "checkout_total underpaid_app = 12"
  "calculateTotal underpaid_app = underpaid_app"
  by (simp_all add: underpaid_app_def cart_calculateTotal db_calculateTotal page_calculateTotal
      checkout_amount_calculateTotal computed_total_calculateTotal calculateTotal_idem
      taxed_app_total taxed_app_checkout)
    (simp_all add: taxed_app_def example_app_def example_page_def checkout_amount_def)

text \<open>
  Claim C2, as stated, fails: the total that the amount is compared with is not the
  total computed for the cart. For one line of price 11 with 10 percent tax the
  computed total is the double \<open>12.1\<close>; the page shows it as \<open>Rp 12\<close>, and with 12
  received, which is below the computed total, the commit succeeds: the transaction
  is stored and the stock of the product is written.
\<close>

theorem insufficient_payment_counterexample:
  "cart underpaid_app \<noteq> [] \<and> calculateTotal underpaid_app = underpaid_app
   \<and> checkout_amount underpaid_app = 12
   \<and> computed_total underpaid_app = 6811694436397875 / 562949953421312
   \<and> checkout_amount underpaid_app < computed_total underpaid_app
   \<and> fst (processPayment example_clock underpaid_app) = Committed
   \<and> rows (transactions (db underpaid_app)) = []
   \<and> rows (transactions (db (snd (processPayment example_clock underpaid_app))))
       = [stored_transaction example_clock underpaid_app]
   \<and> map p_stock (rows (products (db underpaid_app))) = [5]
   \<and> map p_stock (rows (products (db (snd (processPayment example_clock underpaid_app))))) = [4]"
proof -
  note f = underpaid_app_facts
  have c: "cart underpaid_app \<noteq> []" by (simp add: f)
  have v: "valid_cart underpaid_app"
    by (simp add: valid_cart_def f example_item_def example_db_def getRecord_products_def
        store_get_def example_product_def)
  have w: "wf_products (db underpaid_app)"
    by (simp add: wf_products_def f example_db_def example_product_def)
  have fresh: "\<not> list_ex (\<lambda>t. t_invoice t = current_invoice (page underpaid_app))
          (rows (transactions (db underpaid_app)))"
    by (simp add: f example_db_def empty_database_def empty_store_def)
  have le: "checkout_total underpaid_app \<le> checkout_amount underpaid_app"
    by (simp add: f)
  note p = processPayment_commits [OF c v w fresh le, of example_clock]
  have tr: "rows (transactions (db underpaid_app)) = []"
    by (simp add: f example_db_def empty_database_def empty_store_def)
  have pr: "map p_stock (rows (products (db underpaid_app))) = [5]"
    "map (sold (cart underpaid_app)) (rows (products (db underpaid_app)))
       = [example_product\<lparr>p_stock := 4\<rparr>]"
    by (simp_all add: f example_db_def sold_def example_item_def example_product_def)
  show ?thesis using p c by (simp add: tr pr f(4,5,7))
qed

text \<open>
  Claim C2, amended. For every non-empty cart, when the amount received is below the
  total that \<open>processPayment\<close> reads from the page (the number spelt by the digits of
  the text of \<open>#total-amount\<close>), the payment is refused with the
  \<open>InsufficientPayment\<close> warning and the whole state is as before: no transaction
  record is created and no product record is modified. Right after
  \<open>calculateTotal\<close> has run, under the default currency format and for amounts in
  the range of the model with a computed total of magnitude below \<open>2^53\<close>, this is
  the case when the amount received is below the magnitude of the computed total
  rounded to the nearest integer, halves upwards.
\<close>

theorem processPayment_insufficient_payment:
  assumes "cart s \<noteq> []"
  shows "(checkout_amount s < checkout_total s
            \<longrightarrow> processPayment now s = (InsufficientPayment, s))
    \<and> (currency_settings (db s) = default_currency \<and> amounts_in_range s
          \<and> \<bar>computed_total s\<bar> < 2 ^ 53
          \<and> checkout_amount s < of_int \<lfloor>\<bar>computed_total s\<bar> + 1 / 2\<rfloor>
        \<longrightarrow> processPayment now (calculateTotal s) = (InsufficientPayment, calculateTotal s))"
proof (intro conjI impI)
  assume "checkout_amount s < checkout_total s"
  with assms show "processPayment now s = (InsufficientPayment, s)"
    by (simp add: processPayment_def)
next
  assume h: "currency_settings (db s) = default_currency \<and> amounts_in_range s
          \<and> \<bar>computed_total s\<bar> < 2 ^ 53
          \<and> checkout_amount s < of_int \<lfloor>\<bar>computed_total s\<bar> + 1 / 2\<rfloor>"
  then have "checkout_total (calculateTotal s) = of_int \<lfloor>\<bar>computed_total s\<bar> + 1 / 2\<rfloor>"
    by (simp add: checkout_total_calculateTotal)
  with h have "checkout_amount (calculateTotal s) < checkout_total (calculateTotal s)"
    by (simp add: checkout_amount_calculateTotal)
  with assms show "processPayment now (calculateTotal s) = (InsufficientPayment, calculateTotal s)"
    by (simp add: processPayment_def cart_calculateTotal)
qed

theorem processPayment_insufficient_payment_witness:
  "cart example_app \<noteq> [] \<and> checkout_amount example_app < checkout_total example_app
   \<and> processPayment example_clock example_app = (InsufficientPayment, example_app)
   \<and> currency_settings (db example_app) = default_currency
   \<and> amounts_in_range example_app
   \<and> computed_total example_app = 11 \<and> checkout_amount example_app = 5
   \<and> processPayment example_clock (calculateTotal example_app)
        = (InsufficientPayment, calculateTotal example_app)"
proof -
  have c: "cart example_app \<noteq> []" by (simp add: example_app_def)
  have a: "checkout_amount example_app < checkout_total example_app"
    by (simp add: example_checkout_total example_checkout_amount)
  have cur: "currency_settings (db example_app) = default_currency"
    by (simp add: example_app_def currency_example_db)
  have ct: "computed_total example_app = 11"
    by (simp add: computed_total_def cart_subtotal_def example_app_def example_item_def
        example_page_def binary64_eval)
  have lt: "checkout_amount example_app < of_int \<lfloor>\<bar>computed_total example_app\<bar> + 1 / 2\<rfloor>"
    by (simp add: ct example_checkout_amount floor_eq_iff)
  have small: "\<bar>computed_total example_app\<bar> < 2 ^ 53" by (simp add: ct)
  have rng: "amounts_in_range example_app"
    by (simp add: amounts_in_range_def cart_subtotal_def example_app_def example_item_def
        example_page_def binary64_eval)
  note t = processPayment_insufficient_payment [OF c, of example_clock]
  from t a have "processPayment example_clock example_app = (InsufficientPayment, example_app)"
    by blast
  moreover from t cur rng small lt
  have "processPayment example_clock (calculateTotal example_app)
        = (InsufficientPayment, calculateTotal example_app)" by blast
  ultimately show ?thesis using c a cur rng ct by (simp add: example_checkout_amount)
qed

section \<open>The figures of a stored transaction\<close>













section \<open>Frame of the cart operations, and duplicate codes\<close>

lemma orphan_line_app_commit:
  "processPayment example_clock orphan_line_app =
     (CommitIncomplete, orphan_line_app\<lparr>db := example_db\<lparr>
        transactions := \<lparr>rows = [stored_transaction example_clock orphan_line_app], keygen = 2\<rparr>,
        products := \<lparr>rows = [example_product\<lparr>p_stock := 4\<rparr>], keygen = 2\<rparr>\<rparr>\<rparr>)"
proof -
  let ?d1 = "(db orphan_line_app)\<lparr>transactions :=
     \<lparr>rows = insert_by_key t_id (stored_transaction example_clock orphan_line_app)
               (rows (transactions (db orphan_line_app))),
      keygen = keygen (transactions (db orphan_line_app)) + 1\<rparr>\<rparr>"
  have c: "cart orphan_line_app = [second_item, example_item]"
    and d: "db orphan_line_app = example_db"
    by (simp_all add: orphan_line_app_def)
  have guard: "\<not> checkout_amount orphan_line_app < checkout_total orphan_line_app"
    by (simp add: orphan_line_app_def checkout_total_def checkout_amount_def example_page_def
        displayed_amount_def parse_digits_def is_digit_def digit_value_def
        binary64_small_numeral)
  have fresh: "\<not> list_ex (\<lambda>t. t_invoice t = current_invoice (page orphan_line_app))
          (rows (transactions (db orphan_line_app)))"
    by (simp add: d example_db_def empty_database_def empty_store_def)
  have add: "addRecord_transactions (new_transaction example_clock orphan_line_app)
      (db orphan_line_app) = Inr ?d1"
    by (rule addRecord_transactions_fresh [OF fresh])
  have us: "update_stocks (cart orphan_line_app) ?d1 =
      (False, example_db\<lparr>
        transactions := \<lparr>rows = [stored_transaction example_clock orphan_line_app], keygen = 2\<rparr>,
        products := \<lparr>rows = [example_product\<lparr>p_stock := 4\<rparr>], keygen = 2\<rparr>\<rparr>)"
    unfolding c d
    by (simp add: update_stocks_def getRecord_products_def store_get_def
        updateRecord_products_def store_put_def example_db_def empty_database_def
        empty_store_def example_product_def example_item_def second_item_def)
  have ne: "cart orphan_line_app \<noteq> []" by (simp add: c)
  show ?thesis
    using ne guard by (simp add: processPayment_def add us)
qed

text \<open>
  Claim C10, as stated, fails in its last part: product stock is also written by a
  commit that does not succeed. The transaction record is stored first and the stock
  updates of the lines follow, each on its own. When a line's product is no longer
  stored (it was deleted after it was put in the cart), the update of that line
  fails, the other lines are written, and neither the success toast nor the failure
  toast is shown; the cart stays as it is. Here the product of the first line is
  gone, and the stock of the other product goes from 5 to 4.
\<close>

theorem commit_incomplete_writes_stock:
  "fst (processPayment example_clock orphan_line_app) = CommitIncomplete
   \<and> fst (processPayment example_clock orphan_line_app) \<noteq> Committed
   \<and> map p_stock (rows (products (db orphan_line_app))) = [5]
   \<and> map p_stock (rows (products (db (snd (processPayment example_clock orphan_line_app)))))
       = [4]
   \<and> rows (transactions (db orphan_line_app)) = []
   \<and> rows (transactions (db (snd (processPayment example_clock orphan_line_app))))
       = [stored_transaction example_clock orphan_line_app]
   \<and> cart (snd (processPayment example_clock orphan_line_app)) = cart orphan_line_app"
  by (simp only: orphan_line_app_commit fst_conv snd_conv)
    (simp add: orphan_line_app_def example_db_def empty_database_def empty_store_def
      example_product_def)

text \<open>
  Claim C10, amended. None of \<open>addToCart\<close>, \<open>increaseQuantity\<close>,
  \<open>decreaseQuantity\<close>, \<open>updateQuantity\<close>, \<open>removeFromCart\<close> and \<open>clearCart\<close>, and
  no run of them, changes the database: every product, transaction, supplier,
  settings and notification record stays as it is. \<open>processPayment\<close> changes the
  database only when the cart is not empty, the amount received is not below the
  total read from the page and the transaction record was stored: its outcome is
  then the success, or the incomplete commit in which the stock update of some line
  failed.
\<close>

theorem cart_operations_write_nothing:
  "db (snd (addToCart product s)) = db s
   \<and> db (snd (increaseQuantity i s)) = db s
   \<and> db (snd (decreaseQuantity i s)) = db s
   \<and> db (snd (updateQuantity i q s)) = db s
   \<and> db (snd (removeFromCart i s)) = db s
   \<and> db (snd (clearCart confirmed s)) = db s
   \<and> db (cart_run ops s) = db s
   \<and> (db (snd (processPayment now s)) \<noteq> db s \<longrightarrow>
        (fst (processPayment now s) = Committed \<or> fst (processPayment now s) = CommitIncomplete)
        \<and> cart s \<noteq> [] \<and> \<not> checkout_amount s < checkout_total s
        \<and> (\<exists>d. addRecord_transactions (new_transaction now s) (db s) = Inr d))"
proof -
  have "fst (processPayment now s) = Committed \<or> fst (processPayment now s) = CommitIncomplete"
    if "db (snd (processPayment now s)) \<noteq> db s"
    using that by (auto simp: processPayment_def Let_def split: if_splits sum.splits prod.splits bool.splits)
  then show ?thesis
    using processPayment_writes_only_after_guards [of now s]
    by (simp add: db_addToCart db_increaseQuantity db_decreaseQuantity db_updateQuantity
        db_removeFromCart db_clearCart db_cart_run)
qed

theorem cart_operations_write_nothing_witness:
  "db (snd (processPayment example_clock paid_app)) \<noteq> db paid_app
   \<and> fst (processPayment example_clock paid_app) = Committed
   \<and> cart paid_app \<noteq> [] \<and> \<not> checkout_amount paid_app < checkout_total paid_app
   \<and> db (snd (addToCart example_product paid_app)) = db paid_app
   \<and> db (cart_run [AddToCart example_product, UpdateQuantity 1 (Some 3), RemoveFromCart 1]
          paid_app) = db paid_app"
proof -
  have fresh: "\<not> list_ex (\<lambda>t. t_invoice t = current_invoice (page paid_app))
          (rows (transactions (db paid_app)))"
    by (simp add: paid_app_def example_app_def example_db_def empty_database_def empty_store_def)
  have le: "checkout_total paid_app \<le> checkout_amount paid_app"
    by (simp add: paid_app_valid)
  note p = processPayment_commits [OF paid_app_valid(3,1,2) fresh le, of example_clock]
  have "rows (products (db (snd (processPayment example_clock paid_app))))
        \<noteq> rows (products (db paid_app))"
    using p by (simp add: paid_app_def example_app_def example_db_def empty_database_def sold_def
        example_item_def example_product_def)
  then have changed: "db (snd (processPayment example_clock paid_app)) \<noteq> db paid_app"
    by auto
  note t = cart_operations_write_nothing [where product = example_product and s = paid_app
      and ops = "[AddToCart example_product, UpdateQuantity 1 (Some 3), RemoveFromCart 1]"
      and now = example_clock]
  from t changed p show ?thesis by simp
qed

text \<open>
  Claim C9. When a product with the code exists, adding a record with that code is
  refused with \<open>ConstraintError\<close>, and \<open>saveProduct\<close> on a new-product form with
  that code stores nothing and leaves the number of records as it is; the form being
  valid, the refusal is shown as the error of the code field. The same holds for
  suppliers and \<open>saveSupplier\<close>.
\<close>

theorem duplicate_code_rejected:
  "(list_ex (\<lambda>p. p_code p = p_code r) (rows (products d))
      \<longrightarrow> addRecord_products r d = Inl ConstraintError)
   \<and> (pf_id f = None \<and> list_ex (\<lambda>p. p_code p = trim (pf_code f)) (rows (products d))
      \<longrightarrow> snd (saveProduct now f d) = d
        \<and> length (rows (products (snd (saveProduct now f d)))) = length (rows (products d))
        \<and> fst (saveProduct now f d) \<noteq> Stored
        \<and> (validateProductForm f = []
            \<longrightarrow> fst (saveProduct now f d) = ConstraintViolation ''code-error''))
   \<and> (list_ex (\<lambda>x. s_code x = s_code r') (rows (suppliers d))
      \<longrightarrow> addRecord_suppliers r' d = Inl ConstraintError)
   \<and> (sf_id g = None \<and> list_ex (\<lambda>x. s_code x = trim (sf_code g)) (rows (suppliers d))
      \<longrightarrow> snd (saveSupplier now g d) = d
        \<and> length (rows (suppliers (snd (saveSupplier now g d)))) = length (rows (suppliers d))
        \<and> fst (saveSupplier now g d) \<noteq> Stored
        \<and> (validateSupplierForm g = []
            \<longrightarrow> fst (saveSupplier now g d) = ConstraintViolation ''supplier-code-error''))"
proof (intro conjI impI)
  assume "list_ex (\<lambda>p. p_code p = p_code r) (rows (products d))"
  then show "addRecord_products r d = Inl ConstraintError"
    by (simp add: addRecord_products_def store_add_def)
next
  assume "list_ex (\<lambda>x. s_code x = s_code r') (rows (suppliers d))"
  then show "addRecord_suppliers r' d = Inl ConstraintError"
    by (simp add: addRecord_suppliers_def store_add_def)
next
  assume a: "pf_id f = None \<and> list_ex (\<lambda>p. p_code p = trim (pf_code f)) (rows (products d))"
  then have eq: "snd (saveProduct now f d) = d" and no: "fst (saveProduct now f d) \<noteq> Stored"
    by (auto simp: saveProduct_def Let_def addRecord_products_def store_add_def
        split: option.splits)
  show "snd (saveProduct now f d) = d" by (rule eq)
  show "length (rows (products (snd (saveProduct now f d)))) = length (rows (products d))"
    by (simp add: eq)
  show "fst (saveProduct now f d) \<noteq> Stored" by (rule no)
  assume "validateProductForm f = []"
  moreover from this obtain price cost stock minStock
    where "pf_price f = Some price" "pf_cost f = Some cost" "pf_stock f = Some stock"
      "pf_minStock f = Some minStock"
    by (auto simp: validateProductForm_def split: option.splits if_splits)
  ultimately show "fst (saveProduct now f d) = ConstraintViolation ''code-error''"
    using a by (simp add: saveProduct_def Let_def addRecord_products_def store_add_def)
next
  assume a: "sf_id g = None \<and> list_ex (\<lambda>x. s_code x = trim (sf_code g)) (rows (suppliers d))"
  then have eq: "snd (saveSupplier now g d) = d" and no: "fst (saveSupplier now g d) \<noteq> Stored"
    by (auto simp: saveSupplier_def Let_def addRecord_suppliers_def store_add_def)
  show "snd (saveSupplier now g d) = d" by (rule eq)
  show "length (rows (suppliers (snd (saveSupplier now g d)))) = length (rows (suppliers d))"
    by (simp add: eq)
  show "fst (saveSupplier now g d) \<noteq> Stored" by (rule no)
  assume "validateSupplierForm g = []"
  then show "fst (saveSupplier now g d) = ConstraintViolation ''supplier-code-error''"
    using a by (simp add: saveSupplier_def Let_def addRecord_suppliers_def store_add_def)
qed

lemma trim_examples: "trim '' P1 '' = ''P1''" "trim ''S1'' = ''S1''" "trim ''Pencil'' = ''Pencil''"
  "trim ''Office'' = ''Office''" "trim ''Ink Works'' = ''Ink Works''" "trim ''Budi'' = ''Budi''"
  "trim ''Ink Lane 2'' = ''Ink Lane 2''"
  by (simp_all add: trim_def is_space_def)

theorem duplicate_code_rejected_witness:
  "list_ex (\<lambda>p. p_code p = p_code example_product) (rows (products catalog_db))
   \<and> addRecord_products example_product catalog_db = Inl ConstraintError
   \<and> pf_id duplicate_product_form = None
   \<and> list_ex (\<lambda>p. p_code p = trim (pf_code duplicate_product_form)) (rows (products catalog_db))
   \<and> validateProductForm duplicate_product_form = []
   \<and> saveProduct 2000 duplicate_product_form catalog_db
       = (ConstraintViolation ''code-error'', catalog_db)
   \<and> list_ex (\<lambda>x. s_code x = s_code example_supplier) (rows (suppliers catalog_db))
   \<and> addRecord_suppliers example_supplier catalog_db = Inl ConstraintError
   \<and> sf_id duplicate_supplier_form = None
   \<and> list_ex (\<lambda>x. s_code x = trim (sf_code duplicate_supplier_form)) (rows (suppliers catalog_db))
   \<and> validateSupplierForm duplicate_supplier_form = []
   \<and> saveSupplier 2000 duplicate_supplier_form catalog_db
       = (ConstraintViolation ''supplier-code-error'', catalog_db)"
proof -
  have p1: "list_ex (\<lambda>p. p_code p = p_code example_product) (rows (products catalog_db))"
    by (simp add: catalog_db_def example_db_def)
  have p2: "pf_id duplicate_product_form = None"
    by (simp add: duplicate_product_form_def)
  have p3: "list_ex (\<lambda>p. p_code p = trim (pf_code duplicate_product_form))
              (rows (products catalog_db))"
    by (simp add: catalog_db_def example_db_def duplicate_product_form_def trim_examples
        example_product_def)
  have p4: "validateProductForm duplicate_product_form = []"
    by (simp add: validateProductForm_def duplicate_product_form_def trim_examples)
  have s1: "list_ex (\<lambda>x. s_code x = s_code example_supplier) (rows (suppliers catalog_db))"
    by (simp add: catalog_db_def)
  have s2: "sf_id duplicate_supplier_form = None"
    by (simp add: duplicate_supplier_form_def)
  have s3: "list_ex (\<lambda>x. s_code x = trim (sf_code duplicate_supplier_form))
              (rows (suppliers catalog_db))"
    by (simp add: catalog_db_def duplicate_supplier_form_def trim_examples example_supplier_def)
  have s4: "validateSupplierForm duplicate_supplier_form = []"
    by (simp add: validateSupplierForm_def duplicate_supplier_form_def trim_examples)
  note t = duplicate_code_rejected [of example_product catalog_db duplicate_product_form 2000
      example_supplier duplicate_supplier_form]
  from t p1 p2 p3 p4 s1 s2 s3 s4 show ?thesis
    by (simp add: prod_eq_iff)
qed

section \<open>Cart quantities and stock snapshots\<close>

lemma list_all_update_first:
  assumes "find Q xs = Some it" and "list_all P xs" and "P (f it)"
  shows "list_all P (update_first Q f xs)"
  using assms by (induction xs) (auto split: if_splits)

lemma list_all_remove_first: "list_all P xs \<Longrightarrow> list_all P (remove_first Q xs)"
  by (induction xs) auto

lemma find_list_all: "find Q xs = Some it \<Longrightarrow> list_all P xs \<Longrightarrow> P it"
  by (auto simp: find_Some_iff list_all_iff)

lemma cart_updateCart: "cart (updateCart s) = cart s"
  by (simp add: updateCart_def cart_calculateTotal)

lemma cart_positive_step:
  assumes "cart_positive (cart s)"
  shows "cart_positive (cart (snd (cart_step x s)))"
proof (cases x)
  case (AddToCart product)
  show ?thesis
  proof (cases "find (\<lambda>item. item_id item = p_id product) (cart s)")
    case None
    with assms AddToCart show ?thesis
      by (simp add: addToCart_def cart_updateCart cart_positive_def)
  next
    case (Some it)
    with assms have "1 \<le> item_quantity it \<and> 1 \<le> item_stock it"
      unfolding cart_positive_def by (metis find_list_all)
    with assms Some AddToCart show ?thesis
      by (simp add: addToCart_def cart_updateCart cart_positive_def list_all_update_first)
  qed
next
  case (IncreaseQuantity i)
  show ?thesis
  proof (cases "find (\<lambda>item. item_id item = i) (cart s)")
    case None
    with assms IncreaseQuantity show ?thesis by (simp add: increaseQuantity_def)
  next
    case (Some it)
    with assms have "1 \<le> item_quantity it \<and> 1 \<le> item_stock it"
      unfolding cart_positive_def by (metis find_list_all)
    with assms Some IncreaseQuantity show ?thesis
      by (simp add: increaseQuantity_def cart_updateCart cart_positive_def list_all_update_first)
  qed
next
  case (DecreaseQuantity i)
  show ?thesis
  proof (cases "find (\<lambda>item. item_id item = i) (cart s)")
    case None
    with assms DecreaseQuantity show ?thesis by (simp add: decreaseQuantity_def)
  next
    case (Some it)
    with assms have "1 \<le> item_quantity it \<and> 1 \<le> item_stock it"
      unfolding cart_positive_def by (metis find_list_all)
    with assms Some DecreaseQuantity show ?thesis
      by (simp add: decreaseQuantity_def cart_updateCart cart_positive_def list_all_update_first)
  qed
next
  case (UpdateQuantity i q)
  show ?thesis
  proof (cases "find (\<lambda>item. item_id item = i) (cart s)")
    case None
    with assms UpdateQuantity show ?thesis
      by (auto simp: updateQuantity_def removeFromCart_def cart_updateCart cart_positive_def
          list_all_remove_first split: option.splits)
  next
    case (Some it)
    with assms have "1 \<le> item_quantity it \<and> 1 \<le> item_stock it"
      unfolding cart_positive_def by (metis find_list_all)
    with assms Some UpdateQuantity show ?thesis
      by (auto simp: updateQuantity_def removeFromCart_def cart_updateCart cart_positive_def
          list_all_update_first list_all_remove_first split: option.splits)
  qed
next
  case (RemoveFromCart i)
  with assms show ?thesis
    by (simp add: removeFromCart_def cart_updateCart cart_positive_def list_all_remove_first)
next
  case (ClearCart confirmed)
  with assms show ?thesis
    by (simp add: clearCart_def cart_updateCart cart_positive_def)
qed

lemma cart_within_stock_step:
  assumes "cart_within_stock (cart s)" and "adds_within_snapshot [x] s"
  shows "cart_within_stock (cart (snd (cart_step x s)))"
proof (cases x)
  case (AddToCart product)
  show ?thesis
  proof (cases "find (\<lambda>item. item_id item = p_id product) (cart s)")
    case None
    with assms AddToCart show ?thesis
      by (simp add: addToCart_def cart_updateCart cart_within_stock_def)
  next
    case (Some it)
    with assms have "1 \<le> item_quantity it \<and> item_quantity it \<le> item_stock it"
      unfolding cart_within_stock_def by (metis find_list_all)
    with assms Some AddToCart show ?thesis
      by (simp add: addToCart_def cart_updateCart cart_within_stock_def list_all_update_first)
  qed
next
  case (IncreaseQuantity i)
  show ?thesis
  proof (cases "find (\<lambda>item. item_id item = i) (cart s)")
    case None
    with assms IncreaseQuantity show ?thesis by (simp add: increaseQuantity_def)
  next
    case (Some it)
    with assms have "1 \<le> item_quantity it \<and> item_quantity it \<le> item_stock it"
      unfolding cart_within_stock_def by (metis find_list_all)
    with assms Some IncreaseQuantity show ?thesis
      by (simp add: increaseQuantity_def cart_updateCart cart_within_stock_def
          list_all_update_first)
  qed
next
  case (DecreaseQuantity i)
  show ?thesis
  proof (cases "find (\<lambda>item. item_id item = i) (cart s)")
    case None
    with assms DecreaseQuantity show ?thesis by (simp add: decreaseQuantity_def)
  next
    case (Some it)
    with assms have "1 \<le> item_quantity it \<and> item_quantity it \<le> item_stock it"
      unfolding cart_within_stock_def by (metis find_list_all)
    with assms Some DecreaseQuantity show ?thesis
      by (simp add: decreaseQuantity_def cart_updateCart cart_within_stock_def
          list_all_update_first)
  qed
next
  case (UpdateQuantity i q)
  show ?thesis
  proof (cases "find (\<lambda>item. item_id item = i) (cart s)")
    case None
    with assms UpdateQuantity show ?thesis
      by (auto simp: updateQuantity_def removeFromCart_def cart_updateCart
          cart_within_stock_def list_all_remove_first split: option.splits)
  next
    case (Some it)
    with assms have "1 \<le> item_quantity it \<and> item_quantity it \<le> item_stock it"
      unfolding cart_within_stock_def by (metis find_list_all)
    with assms Some UpdateQuantity show ?thesis
      by (auto simp: updateQuantity_def removeFromCart_def cart_updateCart
          cart_within_stock_def list_all_update_first list_all_remove_first
          split: option.splits)
  qed
next
  case (RemoveFromCart i)
  with assms show ?thesis
    by (simp add: removeFromCart_def cart_updateCart cart_within_stock_def
        list_all_remove_first)
next
  case (ClearCart confirmed)
  with assms show ?thesis
    by (simp add: clearCart_def cart_updateCart cart_within_stock_def)
qed

lemma cart_positive_run: "cart_positive (cart s) \<Longrightarrow> cart_positive (cart (cart_run xs s))"
  by (induction xs arbitrary: s) (simp_all add: cart_positive_step)

lemma cart_within_stock_run:
  "cart_within_stock (cart s) \<Longrightarrow> adds_within_snapshot xs s
     \<Longrightarrow> cart_within_stock (cart (cart_run xs s))"
proof (induction xs arbitrary: s)
  case Nil
  then show ?case by simp
next
  case (Cons x xs)
  from Cons.prems have "adds_within_snapshot [x] s" by simp
  with Cons.prems(1) have "cart_within_stock (cart (snd (cart_step x s)))"
    by (rule cart_within_stock_step)
  moreover from Cons.prems have "adds_within_snapshot xs (snd (cart_step x s))" by simp
  ultimately show ?case using Cons.IH by simp
qed

text \<open>
  Claim C5, as stated, fails. \<open>addToCart\<close> compares the quantity of an existing line
  with the stock of the product it is passed, not with the snapshot of the line, and
  does not renew the snapshot. A product is added when one piece is left (quantity 1,
  snapshot 1); its stock is edited to 2 and the product list is read again; the next
  \<open>addToCart\<close> is accepted on a line at its snapshot limit and leaves quantity 2
  with snapshot 1.
\<close>

theorem cart_within_stock_counterexample:
  "cart (cart_run [AddToCart last_piece, AddToCart restocked_piece] empty_cart_app)
     = [example_item\<lparr>item_quantity := 2, item_stock := 1\<rparr>]
   \<and> \<not> cart_within_stock
         (cart (cart_run [AddToCart last_piece, AddToCart restocked_piece] empty_cart_app))
   \<and> cart (snd (addToCart last_piece empty_cart_app))
        = [example_item\<lparr>item_quantity := 1, item_stock := 1\<rparr>]
   \<and> fst (addToCart restocked_piece (snd (addToCart last_piece empty_cart_app))) = CartChanged"
  by (simp add: addToCart_def cart_updateCart empty_cart_app_def example_app_def last_piece_def
      restocked_piece_def example_product_def example_item_def cart_within_stock_def)

text \<open>
  Claim C5, amended. After every run of cart operations each line has a quantity of
  at least 1; each quantity is at most the line's stock snapshot when no \<open>addToCart\<close>
  of a product already in the cart passed a stock above the snapshot of its line.
  \<open>addToCart\<close> of a product whose line has reached the stock of the product passed
  in is rejected with \<open>InsufficientStock\<close> and leaves the state unchanged, and
  \<open>addToCart\<close> of a product that is not in the cart and has no stock is rejected
  with \<open>OutOfStock\<close>.
\<close>

theorem cart_within_stock_invariant:
  "(cart_positive (cart s) \<longrightarrow> cart_positive (cart (cart_run ops s)))
   \<and> (cart_within_stock (cart s) \<and> adds_within_snapshot ops s
        \<longrightarrow> cart_within_stock (cart (cart_run ops s)))
   \<and> (find (\<lambda>item. item_id item = p_id product) (cart s) = Some item
        \<and> p_stock product \<le> item_quantity item
        \<longrightarrow> addToCart product s = (InsufficientStock, s))
   \<and> (find (\<lambda>item. item_id item = p_id product) (cart s) = None \<and> p_stock product \<le> 0
        \<longrightarrow> addToCart product s = (OutOfStock, s))"
  by (auto simp: cart_positive_run cart_within_stock_run addToCart_def)

theorem cart_within_stock_invariant_witness:
  "cart_positive (cart empty_cart_app) \<and> cart_within_stock (cart empty_cart_app)
   \<and> adds_within_snapshot
        [AddToCart example_product, IncreaseQuantity 1, UpdateQuantity 1 (Some 9),
         DecreaseQuantity 1, AddToCart example_product] empty_cart_app
   \<and> cart_within_stock (cart (cart_run
        [AddToCart example_product, IncreaseQuantity 1, UpdateQuantity 1 (Some 9),
         DecreaseQuantity 1, AddToCart example_product] empty_cart_app))
   \<and> cart_positive (cart (cart_run
        [AddToCart example_product, IncreaseQuantity 1, UpdateQuantity 1 (Some 9),
         DecreaseQuantity 1, AddToCart example_product] empty_cart_app))
   \<and> find (\<lambda>item. item_id item = p_id last_piece) (cart example_app) = Some example_item
   \<and> p_stock last_piece \<le> item_quantity example_item
   \<and> addToCart last_piece example_app = (InsufficientStock, example_app)
   \<and> find (\<lambda>item. item_id item = p_id (example_product\<lparr>p_id := 2, p_stock := 0\<rparr>))
        (cart example_app) = None
   \<and> addToCart (example_product\<lparr>p_id := 2, p_stock := 0\<rparr>) example_app
        = (OutOfStock, example_app)"
proof -
  let ?ops = "[AddToCart example_product, IncreaseQuantity 1, UpdateQuantity 1 (Some 9),
         DecreaseQuantity 1, AddToCart example_product]"
  have a: "cart_positive (cart empty_cart_app)" "cart_within_stock (cart empty_cart_app)"
    by (simp_all add: empty_cart_app_def cart_positive_def cart_within_stock_def)
  have b: "adds_within_snapshot ?ops empty_cart_app"
    by (simp add: addToCart_def increaseQuantity_def updateQuantity_def decreaseQuantity_def
        cart_updateCart empty_cart_app_def example_app_def example_product_def)
  have c: "find (\<lambda>item. item_id item = p_id last_piece) (cart example_app) = Some example_item"
    "p_stock last_piece \<le> item_quantity example_item"
    "find (\<lambda>item. item_id item = p_id (example_product\<lparr>p_id := 2, p_stock := 0\<rparr>))
        (cart example_app) = None"
    by (simp_all add: example_app_def last_piece_def example_product_def example_item_def)
  note t1 = cart_within_stock_invariant [where s = empty_cart_app and ops = ?ops
      and product = last_piece and item = example_item]
  note t2 = cart_within_stock_invariant [where s = example_app and product = last_piece
      and item = example_item]
  note t3 = cart_within_stock_invariant [where s = example_app
      and product = "example_product\<lparr>p_id := 2, p_stock := 0\<rparr>"]
  from t1 a b have "cart_within_stock (cart (cart_run ?ops empty_cart_app))"
    and "cart_positive (cart (cart_run ?ops empty_cart_app))" by blast+
  moreover from t2 c have "addToCart last_piece example_app = (InsufficientStock, example_app)"
    by blast
  moreover from t3 c have "addToCart (example_product\<lparr>p_id := 2, p_stock := 0\<rparr>) example_app
        = (OutOfStock, example_app)" by simp
  ultimately show ?thesis using a b c by simp
qed

section \<open>Where the code departs from the specification\<close>

lemma trim_more: "trim ''P1'' = ''P1''" "trim ''Pen'' = ''Pen''" "trim ''Paper Mill'' = ''Paper Mill''"
  "trim ''Ana'' = ''Ana''" "trim ''Mill Road 1'' = ''Mill Road 1''" "trim [] = []"
  by (simp_all add: trim_def is_space_def)

lemma full_cart_app_facts:
  "cart full_cart_app = [example_item\<lparr>item_quantity := 5\<rparr>]"
  "db full_cart_app = example_db"
  "current_invoice (page full_cart_app) = ''INV-260105-120309''"
  "checkout_total full_cart_app = 55"
proof -
  let ?s1 = "calculateTotal (empty_cart_app\<lparr>cart := [example_item]\<rparr>)"
  let ?x = "?s1\<lparr>cart := [example_item\<lparr>item_quantity := 5\<rparr>]\<rparr>"
  have s1: "snd (addToCart example_product empty_cart_app) = ?s1"
    by (simp add: addToCart_def updateCart_def empty_cart_app_def example_app_def
        example_product_def example_item_def)
  have s2: "full_cart_app = calculateTotal ?x"
    by (simp add: full_cart_app_def s1 updateQuantity_def updateCart_def cart_calculateTotal
        example_item_def)
  show "cart full_cart_app = [example_item\<lparr>item_quantity := 5\<rparr>]"
    by (simp add: s2 cart_calculateTotal)
  show "db full_cart_app = example_db"
    by (simp add: s2 db_calculateTotal empty_cart_app_def example_app_def)
  show "current_invoice (page full_cart_app) = ''INV-260105-120309''"
    by (simp add: s2 page_calculateTotal empty_cart_app_def example_app_def example_page_def)
  have ct: "computed_total ?x = 55"
    by (simp add: computed_total_def page_calculateTotal cart_subtotal_def
        empty_cart_app_def example_app_def example_page_def example_item_def binary64_eval)
  have "currency_settings (db ?x) = default_currency"
    by (simp add: db_calculateTotal empty_cart_app_def example_app_def currency_example_db)
  moreover have "\<bar>computed_total ?x\<bar> < 2 ^ 53" by (simp only: ct) simp
  ultimately have "checkout_total (calculateTotal ?x)
      = of_int \<lfloor>\<bar>computed_total ?x\<bar> + 1 / 2\<rfloor>"
    by (rule checkout_total_calculateTotal)
  then show "checkout_total full_cart_app = 55"
    by (simp add: s2 ct floor_eq_iff)
qed

lemma stock_edit_saved:
  "saveProduct 2000 stock_edit_form example_db =
     (Stored, example_db\<lparr>products := \<lparr>rows = [example_product\<lparr>p_stock := 2,
        p_updatedAt := DateObj 2000, p_createdAt := None\<rparr>], keygen = 2\<rparr>\<rparr>)"
  by (simp add: saveProduct_def validateProductForm_def stock_edit_form_def trim_more
      trim_examples updateRecord_products_def store_put_def example_db_def example_product_def)

lemma saveProduct_stock_nonneg:
  assumes "list_all (\<lambda>p. 0 \<le> p_stock p) (rows (products d))"
  shows "list_all (\<lambda>p. 0 \<le> p_stock p) (rows (products (snd (saveProduct now f d))))"
proof (cases "validateProductForm f = []")
  case False
  with assms show ?thesis by (simp add: saveProduct_def)
next
  case True
  then obtain price cost stock minStock
    where n: "pf_price f = Some price" "pf_cost f = Some cost" "pf_stock f = Some stock"
      "pf_minStock f = Some minStock" and ok: "0 \<le> stock"
    by (auto simp: validateProductForm_def split: option.splits if_splits)
  with True assms show ?thesis
    by (auto simp: saveProduct_def Let_def updateRecord_products_def addRecord_products_def
        store_put_def store_add_def set_insert_by_key list_all_iff
        split: option.splits)
qed

text \<open>
  Claim C6 does not hold of the code. \<open>validateProductForm\<close> refuses a negative
  stock on create and edit (the lemma above), and the cart operations keep a
  quantity within the snapshot taken when the line was added; but \<open>processPayment\<close>
  subtracts the quantity from the stock stored now, without comparing them. With
  quantity 5 in the cart and the stock edited to 2 meanwhile, the commit succeeds and
  stores the stock \<open>-3\<close>.
\<close>

theorem stock_negative_after_commit:
  "fst (saveProduct 2000 stock_edit_form (db full_cart_app)) = Stored
   \<and> map item_quantity (cart oversold_app) = [5]
   \<and> map p_stock (rows (products (db oversold_app))) = [2]
   \<and> fst (processPayment example_clock oversold_app) = Committed
   \<and> map p_stock (rows (products (db (snd (processPayment example_clock oversold_app))))) = [- 3]"
proof -
  note f = full_cart_app_facts
  have d: "db oversold_app = example_db\<lparr>products := \<lparr>rows = [example_product\<lparr>p_stock := 2,
        p_updatedAt := DateObj 2000, p_createdAt := None\<rparr>], keygen = 2\<rparr>\<rparr>"
    by (simp add: oversold_app_def f stock_edit_saved)
  have c: "cart oversold_app = [example_item\<lparr>item_quantity := 5\<rparr>]"
    by (simp add: oversold_app_def f)
  have ne: "cart oversold_app \<noteq> []" by (simp add: c)
  have v: "valid_cart oversold_app"
    by (simp add: valid_cart_def c d getRecord_products_def store_get_def example_item_def
        example_product_def)
  have w: "wf_products (db oversold_app)"
    by (simp add: wf_products_def d example_product_def)
  have fresh: "\<not> list_ex (\<lambda>t. t_invoice t = current_invoice (page oversold_app))
          (rows (transactions (db oversold_app)))"
    by (simp add: d example_db_def empty_database_def empty_store_def)
  have "checkout_total oversold_app = 55"
    using f(4) by (simp add: checkout_total_def oversold_app_def)
  moreover have "checkout_amount oversold_app = 55"
    by (simp add: checkout_amount_def oversold_app_def)
  ultimately have le: "checkout_total oversold_app \<le> checkout_amount oversold_app" by simp
  note p = processPayment_commits [OF ne v w fresh le, of example_clock]
  show ?thesis
    using p by (simp add: f stock_edit_saved c d sold_def example_item_def example_product_def)
qed

lemma supplier_saved:
  "saveSupplier 1000 new_supplier_form empty_database =
     (Stored, empty_database\<lparr>suppliers := \<lparr>rows = [example_supplier\<lparr>s_updatedAt := DateObj 1000,
        s_createdAt := Some (DateObj 1000)\<rparr>], keygen = 2\<rparr>\<rparr>)"
  by (simp add: saveSupplier_def validateSupplierForm_def new_supplier_form_def trim_more
      trim_examples addRecord_suppliers_def store_add_def empty_database_def empty_store_def
      example_supplier_def)

lemma supplied_db_eq:
  "saveProduct 2000 supplied_product_form (snd (saveSupplier 1000 new_supplier_form empty_database))
   = (Stored, empty_database\<lparr>
       suppliers := \<lparr>rows = [example_supplier\<lparr>s_updatedAt := DateObj 1000,
         s_createdAt := Some (DateObj 1000)\<rparr>], keygen = 2\<rparr>,
       products := \<lparr>rows = [example_product\<lparr>p_supplierId := Some (StrKey ''1''),
         p_updatedAt := DateObj 2000, p_createdAt := Some (DateObj 2000)\<rparr>], keygen = 2\<rparr>\<rparr>)"
  by (simp only: supplier_saved snd_conv)
    (simp add: saveProduct_def validateProductForm_def supplied_product_form_def
      trim_more trim_examples addRecord_products_def store_add_def empty_database_def
      empty_store_def example_product_def)

text \<open>\<open>deleteSupplier\<close> blocks exactly when the index count for the number is positive.\<close>

lemma deleteSupplier_blocks_iff:
  "fst (deleteSupplier True i d) = ReferentialBlock \<longleftrightarrow> 0 < supplierId_count i d"
  by (simp add: deleteSupplier_def)

text \<open>
  Claim C7 does not hold of the code. \<open>saveProduct\<close> stores the value of the
  drop-down, the string \<open>"1"\<close>, as \<open>supplierId\<close>; \<open>deleteSupplier\<close> counts the
  index entries equal to the number \<open>1\<close>. A string key is never equal to a number
  key, so the count is 0 and the supplier is deleted while the product still names
  it.
\<close>

theorem referenced_supplier_deleted:
  "fst (saveSupplier 1000 new_supplier_form empty_database) = Stored
   \<and> fst (saveProduct 2000 supplied_product_form
            (snd (saveSupplier 1000 new_supplier_form empty_database))) = Stored
   \<and> map s_id (rows (suppliers supplied_db)) = [1]
   \<and> map p_supplierId (rows (products supplied_db)) = [Some (StrKey ''1'')]
   \<and> supplierId_count 1 supplied_db = 0
   \<and> fst (deleteSupplier True 1 supplied_db) = SupplierDeleted
   \<and> rows (suppliers (snd (deleteSupplier True 1 supplied_db))) = []
   \<and> map p_supplierId (rows (products (snd (deleteSupplier True 1 supplied_db))))
       = [Some (StrKey ''1'')]"
proof -
  have d: "supplied_db = empty_database\<lparr>
       suppliers := \<lparr>rows = [example_supplier\<lparr>s_updatedAt := DateObj 1000,
         s_createdAt := Some (DateObj 1000)\<rparr>], keygen = 2\<rparr>,
       products := \<lparr>rows = [example_product\<lparr>p_supplierId := Some (StrKey ''1''),
         p_updatedAt := DateObj 2000, p_createdAt := Some (DateObj 2000)\<rparr>], keygen = 2\<rparr>\<rparr>"
    by (simp only: supplied_db_def supplied_db_eq snd_conv)
  have a: "fst (saveSupplier 1000 new_supplier_form empty_database) = Stored"
    by (simp only: supplier_saved fst_conv)
  have b: "fst (saveProduct 2000 supplied_product_form
            (snd (saveSupplier 1000 new_supplier_form empty_database))) = Stored"
    by (simp only: supplied_db_eq fst_conv)
  show ?thesis
    unfolding d
    using a b
    by (simp add: deleteSupplier_def supplierId_count_def deleteRecord_suppliers_def
        store_delete_def example_supplier_def example_product_def)
qed

lemma sold_db_eq:
  "sold_db = example_db\<lparr>
     transactions := \<lparr>rows = [stored_transaction example_clock paid_app], keygen = 2\<rparr>,
     products := \<lparr>rows = [example_product\<lparr>p_stock := 4\<rparr>], keygen = 2\<rparr>\<rparr>"
proof -
  have fresh: "\<not> list_ex (\<lambda>t. t_invoice t = current_invoice (page paid_app))
          (rows (transactions (db paid_app)))"
    by (simp add: paid_app_def example_app_def example_db_def empty_database_def empty_store_def)
  have le: "checkout_total paid_app \<le> checkout_amount paid_app"
    by (simp add: paid_app_valid)
  note p = processPayment_commits [OF paid_app_valid(3,1,2) fresh le, of example_clock]
  then show ?thesis
    by (simp add: sold_db_def paid_app_def example_app_def example_db_def empty_database_def
        empty_store_def sold_def example_item_def example_product_def)
qed

lemma restoreData_notifications:
  "notifications (snd (restoreData file confirmed d)) = notifications d"
  by (simp add: restoreData_def Let_def split: option.splits prod.splits)

text \<open>
  Claim C8 does not hold of the code. The notifications store is indeed left out of
  both \<open>backupData\<close> and \<open>restoreData\<close> (the lemma above), but the records do not
  come back as they were: every \<open>Date\<close> (\<open>date\<close> of a transaction, \<open>updatedAt\<close> and
  \<open>createdAt\<close> of a product or supplier) is written by \<open>JSON.stringify\<close> as a
  string and stored by \<open>restoreData\<close> as that string. The reports select
  transactions through the \<open>date\<close> index with a range of \<open>Date\<close> keys, which no
  string key lies in.
\<close>

theorem restore_changes_dates:
  "fst (restoreData (Some (backupData sold_db)) True sold_db) = Restored
   \<and> map t_date (rows (transactions sold_db)) = [DateObj 1000]
   \<and> map t_date (rows (transactions (snd (restoreData (Some (backupData sold_db)) True sold_db))))
       = [IsoString 1000]
   \<and> map p_updatedAt (rows (products sold_db)) = [DateObj 0]
   \<and> map p_updatedAt (rows (products (snd (restoreData (Some (backupData sold_db)) True sold_db))))
       = [IsoString 0]
   \<and> rows (transactions (snd (restoreData (Some (backupData sold_db)) True sold_db)))
       \<noteq> rows (transactions sold_db)
   \<and> rows (products (snd (restoreData (Some (backupData sold_db)) True sold_db)))
       \<noteq> rows (products sold_db)"
  by (simp add: sold_db_eq restoreData_def backupData_def restore_store_def restore_settings_def
      store_clear_def store_add_keyed_def json_transaction_def json_product_def json_date_def
      json_num_def stored_transaction_def new_transaction_def Let_def example_db_def
      empty_database_def empty_store_def example_product_def example_clock_def)

end
